theory Spec2Isabelle
  imports Main "HOL-Library.Word"
begin

unbundle bit_operations_syntax

section \<open>The account service of breez: LNURL flows and the sweep planner\<close>

text \<open>
  The development embeds two Go files of package \<^verbatim>\<open>account\<close>: the LNURL client
  (\<^verbatim>\<open>FinishLNURLAuth\<close> with \<^verbatim>\<open>getLNURLAuthKey\<close>, \<^verbatim>\<open>FinishLNURLPay\<close> and
  \<^verbatim>\<open>DecryptLNUrlPayMessage\<close>) and \<^verbatim>\<open>sweep.go\<close> (\<^verbatim>\<open>SweepAllCoinsTransactions\<close>,
  \<^verbatim>\<open>determineFeePerKw\<close>, \<^verbatim>\<open>ListUnspentWitness\<close>). Of \<^verbatim>\<open>HandleLNURL\<close> only the state it
  leaves behind is kept: the fields \<^verbatim>\<open>lnurlWithdrawing\<close> and \<^verbatim>\<open>lnurlPayMetadata\<close> of the
  service.

  Conventions.
  \<^item> A Go \<^verbatim>\<open>(value, error)\<close> result is a sum \<open>error + value\<close>, \<open>Inl\<close> the error. A run-time
    panic (a nil pointer dereference) is an error value of its own.
  \<^item> Receiver state that a method reads or writes (\<^verbatim>\<open>a.lnurlPayMetadata\<close>, \<^verbatim>\<open>a.breezDB\<close>,
    \<^verbatim>\<open>rus.totalAmount\<close>) is passed in and returned.
  \<^item> Functions of other packages (the cryptographic primitives, the invoice decoder, the key
    derivation library, the HTTP client, the database, the remote wallet and the sweep builder)
    are fields of a record that every operation takes as its first argument.
  \<^item> Calls to the logger are left out: they do not influence any result.
\<close>

subsection \<open>Bytes, strings and hexadecimal encoding\<close>

type_synonym byte = "8 word"
type_synonym bytes = "byte list"

text \<open>An error value produced by a library or by a remote call; only its text is kept.\<close>

type_synonym lib_error = string

text \<open>The conversion \<^verbatim>\<open>[]byte(s)\<close> of a Go string.\<close>

definition bytes_of_string :: "string \<Rightarrow> bytes" where
  "bytes_of_string s = map of_char s"

text \<open>
  \<^verbatim>\<open>hex.EncodeToString\<close> of the Go standard library: for each byte \<^verbatim>\<open>v\<close> the two characters
  \<^verbatim>\<open>hextable[v>>4]\<close> and \<^verbatim>\<open>hextable[v&0x0f]\<close>.
\<close>

definition hextable :: string where
  "hextable = ''0123456789abcdef''"

definition hex_EncodeToString :: "bytes \<Rightarrow> string" where
  "hex_EncodeToString src =
     concat (map (\<lambda>v. [hextable ! unat (drop_bit 4 v), hextable ! unat (v AND 0x0f)]) src)"

text \<open>
  \<^verbatim>\<open>hex.DecodeString\<close>: pairs of hexadecimal digits (either case) become bytes; at the first
  character that is no digit, or at an odd length, the bytes decoded so far are returned
  together with an error.
\<close>

definition fromHexChar :: "char \<Rightarrow> byte option" where
  "fromHexChar c =
     (let n = (of_char c :: nat) in
      if 48 \<le> n \<and> n \<le> 57 then Some (of_nat (n - 48))
      else if 97 \<le> n \<and> n \<le> 102 then Some (of_nat (n - 97 + 10))
      else if 65 \<le> n \<and> n \<le> 70 then Some (of_nat (n - 65 + 10))
      else None)"

fun hex_DecodeString :: "string \<Rightarrow> bytes \<times> lib_error option" where
  "hex_DecodeString (p # q # rest) =
     (case fromHexChar p of
        None \<Rightarrow> ([], Some ''encoding/hex: invalid byte'')
      | Some a \<Rightarrow>
          (case fromHexChar q of
             None \<Rightarrow> ([], Some ''encoding/hex: invalid byte'')
           | Some b \<Rightarrow>
               (case hex_DecodeString rest of
                  (bs, e) \<Rightarrow> ((push_bit 4 a OR b) # bs, e))))"
| "hex_DecodeString [p] =
     (case fromHexChar p of
        None \<Rightarrow> ([], Some ''encoding/hex: invalid byte'')
      | Some a \<Rightarrow> ([], Some ''encoding/hex: odd length hex string''))"
| "hex_DecodeString [] = ([], None)"

text \<open>\<^verbatim>\<open>fmt.Sprintf("%d", n)\<close> for an unsigned number.\<close>

function decimal :: "nat \<Rightarrow> string" where
  "decimal n =
     (if n < 10 then [char_of (48 + n)]
      else decimal (n div 10) @ [char_of (48 + n mod 10)])"
  by pat_completeness auto
termination
  by (relation "measure id") auto

declare decimal.simps [simp del]

subsection \<open>Errors\<close>

text \<open>
  One constructor for each place where the two files return an error, named after the
  message of the source. \<open>ExternalError\<close> is an error of a callee that is returned as it is.
\<close>

datatype error =
    ExternalError lib_error
  | InvalidCallbackUrl lib_error
      \<comment> \<open>\<^verbatim>\<open>invalid callback url %v\<close>\<close>
  | HttpRequestError string
      \<comment> \<open>\<^verbatim>\<open>Error in http request: %s\<close>\<close>
  | ProtocolError string
      \<comment> \<open>the \<^verbatim>\<open>reason\<close> of a response with status \<^verbatim>\<open>ERROR\<close>\<close>
  | DescriptionHashNotFound
      \<comment> \<open>\<^verbatim>\<open>Description hash not found in invoice.\<close>\<close>
  | HashMismatch
      \<comment> \<open>\<^verbatim>\<open>Invoice description hash does not match metadata.\<close>\<close>
  | AmountMismatch
      \<comment> \<open>\<^verbatim>\<open>Invoice amount does not match the amount set by user.\<close>\<close>
  | UnknownSuccessAction string
      \<comment> \<open>\<^verbatim>\<open>Unknown SuccessAction: %s\<close>\<close>
  | FetchPayInfoFailed lib_error
      \<comment> \<open>\<^verbatim>\<open>Unable to get LNUrl-Pay info from database: %s\<close>\<close>
  | CipherTextEmpty
      \<comment> \<open>\<^verbatim>\<open>LNUrl-Pay CipherText is empty.\<close>\<close>
  | DecryptFailed lib_error
      \<comment> \<open>\<^verbatim>\<open>Could not decrypt message: %v\<close>\<close>
  | SaveFailed lib_error
      \<comment> \<open>\<^verbatim>\<open>Could not save deciphered message: %s\<close>\<close>
  | PayInfoNotFound
      \<comment> \<open>\<^verbatim>\<open>could not find lnUrlPayInfo with given paymentHash.\<close>\<close>
  | FetchLNURLKeyFailed lib_error
      \<comment> \<open>\<^verbatim>\<open>failed to fetch lnurl key %w\<close>\<close>
  | MasterKeyFailed lib_error
      \<comment> \<open>\<^verbatim>\<open>error creating lnurl master key: %w\<close>\<close>
  | K1DecodeFailed lib_error
      \<comment> \<open>\<^verbatim>\<open>failed to decode k1 challenge %w\<close>\<close>
  | SignFailed lib_error
      \<comment> \<open>\<^verbatim>\<open>failed to sign k1 challenge %w\<close>\<close>
  | WireSigFailed lib_error
      \<comment> \<open>\<^verbatim>\<open>can't convert sig to wire format: %v\<close>\<close>
  | NotForNet string
      \<comment> \<open>\<^verbatim>\<open>address: %v is not valid for this network: %v\<close>\<close>
  | PubkeyDestinationRejected
      \<comment> \<open>\<^verbatim>\<open>cannot send coins to pubkeys\<close>\<close>
  | GetInfoFailed lib_error
      \<comment> \<open>\<^verbatim>\<open>lnClient.GetInfo: %w\<close>\<close>
  | ApiNotReady
      \<comment> \<open>\<^verbatim>\<open>API not ready\<close>\<close>
  | EstimateFeeFailed int lib_error
      \<comment> \<open>\<^verbatim>\<open>walletKitClient.EstimateFee(%v): %w\<close>\<close>
  | DetermineFeeFailed int error
      \<comment> \<open>\<^verbatim>\<open>a.determineFeePerKw(%v): %w\<close>\<close>
  | CraftSweepFailed lib_error
      \<comment> \<open>\<^verbatim>\<open>sweep.CraftSweepAllTx(): %w\<close>\<close>
  | SerializeFailed lib_error
      \<comment> \<open>\<^verbatim>\<open>tx.Serialize %#v: %w\<close>\<close>
  | ListUnspentFailed lib_error
      \<comment> \<open>\<^verbatim>\<open>u.lightningClient.ListUnspent: %w\<close>\<close>
  | InvalidUtxoAddressType
      \<comment> \<open>\<^verbatim>\<open>invalid utxo address type\<close>\<close>
  | PkScriptDecodeFailed string lib_error
      \<comment> \<open>\<^verbatim>\<open>hex.DecodeString(%v): %w\<close>\<close>
  | OutPointHashFailed lib_error
      \<comment> \<open>\<^verbatim>\<open>outPointHash.SetBytes(%x): %w\<close>\<close>
  | NilPointerDereference
      \<comment> \<open>the run-time panic of reading through a nil pointer\<close>
  | SliceOutOfRange
      \<comment> \<open>the run-time panic of slicing beyond the capacity\<close>

subsection \<open>The data of the pay flow\<close>

text \<open>\<^verbatim>\<open>data.LNURLPayResponse1\<close>, the parameter of \<^verbatim>\<open>FinishLNURLPay\<close> (the fields it reads).\<close>

record LNURLPayResponse1 =
  Callback :: string
  Amount :: "64 word"
  Comment :: string
  Host :: string
  Metadata :: "string list list"

text \<open>\<^verbatim>\<open>lnurl.SuccessAction\<close> and \<^verbatim>\<open>data.SuccessAction\<close> have the same six string fields.\<close>

record SuccessAction =
  Tag :: string
  Description :: string
  Url :: string
  Message :: string
  Ciphertext :: string
  Iv :: string

text \<open>
  \<^verbatim>\<open>lnurl.LNURLPayResponse2\<close>: the embedded \<^verbatim>\<open>LNURLResponse\<close> (\<^verbatim>\<open>Status\<close>, \<^verbatim>\<open>Reason\<close>), the
  invoice \<^verbatim>\<open>PR\<close>, the optional success action (a pointer) and the routes.
\<close>

record LNURLPayResponse2 =
  Status :: string
  Reason :: string
  PR :: string
  PayResponse2_SuccessAction :: "SuccessAction option"
  Routes :: "(string \<times> string) list list"

text \<open>
  \<^verbatim>\<open>zpay32.Invoice\<close>: the three fields that \<^verbatim>\<open>FinishLNURLPay\<close> reads, each a pointer
  (\<^verbatim>\<open>*[32]byte\<close>, \<^verbatim>\<open>*lnwire.MilliSatoshi\<close>, \<^verbatim>\<open>*[32]byte\<close>), \<open>None\<close> when nil.
  \<^verbatim>\<open>lnwire.MilliSatoshi\<close> is a \<^verbatim>\<open>uint64\<close>.
\<close>

record Invoice =
  DescriptionHash :: "bytes option"
  MilliSat :: "64 word option"
  Invoice_PaymentHash :: "bytes option"

text \<open>\<^verbatim>\<open>data.LNUrlPayInfo\<close>, the record that is persisted.\<close>

record LNUrlPayInfo =
  PaymentHash :: string
  PayInfo_SuccessAction :: "SuccessAction option"
  PayInfo_Comment :: string
  InvoiceDescription :: string
  PayInfo_Host :: string
  PayInfo_Metadata :: "string list list"
  PayInfo_Invoice :: string

text \<open>A parsed \<^verbatim>\<open>url.URL\<close>: what \<^verbatim>\<open>url.Parse\<close> returned, and the query parameters in order.\<close>

record URL =
  parsed :: string
  RawQuery :: "(string \<times> string) list"

record http_Response =
  StatusCode :: int
  Response_Status :: string
  Body :: string

text \<open>
  The state of the receiver \<^verbatim>\<open>a *Service\<close>: the two single-slot fields written by
  \<^verbatim>\<open>HandleLNURL\<close>, and the database handle.
\<close>

record 'db Service =
  lnurlWithdrawing :: string
  lnurlPayMetadata_encoded :: string
  lnurlPayMetadata_data :: "string list list"
  breezDB :: 'db

subsection \<open>Functions of other packages\<close>

text \<open>
  \<^verbatim>\<open>bip32.Key\<close> of the key derivation library.
\<close>

record bip32_Key =
  Key :: bytes
  ChainCode :: bytes
  Depth :: byte
  ChildNumber :: bytes
  FingerPrint :: bytes
  IsPrivate :: bool

text \<open>
  Everything the LNURL flows call outside the two files. The database is package
  \<^verbatim>\<open>db\<close> of the repository, whose source is not part of the development: its three
  operations are fields as well, over an abstract state \<open>'db\<close>.
  \<^item> \<open>FetchLNURLAuthKey db seed\<close>: the stored key; \<open>seed\<close> is the result the callback
    \<^verbatim>\<open>bip32.NewSeed\<close> gives if the database calls it; the boolean tells whether it was called.
  \<^item> \<open>SaveLNUrlPayInfo db info\<close>: the error, if any, and the database afterwards.
\<close>

record 'db world =
  sha256_Sum256 :: "bytes \<Rightarrow> bytes"
  hmac_sha256 :: "bytes \<Rightarrow> bytes \<Rightarrow> bytes"
  url_Parse :: "string \<Rightarrow> lib_error + URL"
  rand_Read :: "nat \<Rightarrow> lib_error + bytes"
  http_Get :: "URL \<Rightarrow> lib_error + http_Response"
  json_Decode_PayResponse2 :: "string \<Rightarrow> lib_error + LNURLPayResponse2"
  json_Decode_LoginResponse :: "string \<Rightarrow> lib_error + (string \<times> string \<times> string)"
  zpay32_Decode :: "string \<Rightarrow> lib_error + Invoice"
  Metadata_Description :: "string list list \<Rightarrow> string"
  Decipher :: "SuccessAction \<Rightarrow> bytes \<Rightarrow> lib_error + string"
  bip32_NewSeed :: "lib_error + bytes"
  bip32_NewMasterKey :: "bytes \<Rightarrow> lib_error + bip32_Key"
  NewChildKey :: "bip32_Key \<Rightarrow> 32 word \<Rightarrow> lib_error + bip32_Key"
  PrivKeyFromBytes :: "bytes \<Rightarrow> bytes \<times> bytes"
  Sign :: "bytes \<Rightarrow> bytes \<Rightarrow> lib_error + bytes"
  NewSigFromSignature :: "bytes \<Rightarrow> lib_error + bytes"
  ToSignatureBytes :: "bytes \<Rightarrow> bytes"
  SerializeCompressed :: "bytes \<Rightarrow> bytes"
  FetchLNURLAuthKey :: "'db \<Rightarrow> (lib_error + bytes) \<Rightarrow> (lib_error + bytes) \<times> bool \<times> 'db"
  requestBackup :: "'db \<Rightarrow> 'db"
  FetchLNUrlPayInfo :: "'db \<Rightarrow> string \<Rightarrow> lib_error + LNUrlPayInfo option"
  SaveLNUrlPayInfo :: "'db \<Rightarrow> LNUrlPayInfo \<Rightarrow> lib_error option \<times> 'db"

subsection \<open>\<^verbatim>\<open>FinishLNURLPay\<close>\<close>

text \<open>
  Steps 5 and 6 of the function: the request to the callback with \<^verbatim>\<open>amount\<close>, \<^verbatim>\<open>nonce\<close> and
  the optional \<^verbatim>\<open>comment\<close>, the check of the HTTP status, the decoding of the body and the
  check of the \<^verbatim>\<open>ERROR\<close> status.
\<close>

definition FinishLNURLPay_request ::
  "'db world \<Rightarrow> LNURLPayResponse1 \<Rightarrow> error + LNURLPayResponse2" where
  "FinishLNURLPay_request w params =
     (case url_Parse w (Callback params) of
        Inl e \<Rightarrow> Inl (InvalidCallbackUrl e)
      | Inr url \<Rightarrow>
     (case rand_Read w 12 of
        Inl e \<Rightarrow> Inl (ExternalError e)
      | Inr nonce \<Rightarrow>
     (let query = RawQuery url
                  @ [(''amount'', decimal (unat (Amount params)))]
                  @ [(''nonce'', hex_EncodeToString nonce)]
                  @ (if Comment params \<noteq> [] then [(''comment'', Comment params)] else [])
      in
      case http_Get w (url\<lparr>RawQuery := query\<rparr>) of
        Inl e \<Rightarrow> Inl (ExternalError e)
      | Inr resp \<Rightarrow>
          if StatusCode resp \<noteq> 200 \<and> StatusCode resp \<noteq> 320
          then Inl (HttpRequestError (Response_Status resp))
          else
            (case json_Decode_PayResponse2 w (Body resp) of
               Inl e \<Rightarrow> Inl (ExternalError e)
             | Inr payResponse2 \<Rightarrow>
                 if Status payResponse2 = ''ERROR''
                 then Inl (ProtocolError (Reason payResponse2))
                 else Inr payResponse2))))"

text \<open>
  Steps 7 to 11, on the response \<open>payResponse2\<close>: the invoice is decoded, its description
  hash is compared with the hash of the stored encoded metadata (as hexadecimal strings), its
  amount is compared with the requested one through the pointer \<^verbatim>\<open>invoice.MilliSat\<close>, the tag of
  the success action is checked, and the pay info is built and saved (the error of
  \<^verbatim>\<open>SaveLNUrlPayInfo\<close> is dropped).
\<close>

definition FinishLNURLPay_verify ::
  "'db world \<Rightarrow> 'db Service \<Rightarrow> LNURLPayResponse1 \<Rightarrow> LNURLPayResponse2
     \<Rightarrow> (error + LNUrlPayInfo) \<times> 'db Service" where
  "FinishLNURLPay_verify w a params payResponse2 =
     (case zpay32_Decode w (PR payResponse2) of
        Inl e \<Rightarrow> (Inl (ExternalError e), a)
      | Inr invoice \<Rightarrow>
     (case DescriptionHash invoice of
        None \<Rightarrow> (Inl DescriptionHashNotFound, a)
      | Some descriptionHash \<Rightarrow>
     (if hex_EncodeToString (sha256_Sum256 w (bytes_of_string (lnurlPayMetadata_encoded a)))
           \<noteq> hex_EncodeToString descriptionHash
      then (Inl HashMismatch, a)
      else
     (case MilliSat invoice of
        None \<Rightarrow> (Inl NilPointerDereference, a)
      | Some milliSat \<Rightarrow>
     (if Amount params \<noteq> milliSat
      then (Inl AmountMismatch, a)
      else
     (let sa = PayResponse2_SuccessAction payResponse2 in
      case (case sa of
              None \<Rightarrow> None
            | Some s \<Rightarrow>
                if Tag s \<noteq> ''message'' \<and> Tag s \<noteq> ''url'' \<and> Tag s \<noteq> ''aes''
                then Some (UnknownSuccessAction (Tag s)) else None) of
        Some e \<Rightarrow> (Inl e, a)
      | None \<Rightarrow>
     (case Invoice_PaymentHash invoice of
        None \<Rightarrow> (Inl NilPointerDereference, a)
      | Some paymentHash \<Rightarrow>
     (let info = \<lparr> PaymentHash = hex_EncodeToString paymentHash,
                   PayInfo_SuccessAction = sa,
                   PayInfo_Comment = Comment params,
                   InvoiceDescription = Metadata_Description w (lnurlPayMetadata_data a),
                   PayInfo_Host = Host params,
                   PayInfo_Metadata = Metadata params,
                   PayInfo_Invoice = PR payResponse2 \<rparr>
      in (Inr info, a\<lparr>breezDB := snd (SaveLNUrlPayInfo w (breezDB a) info)\<rparr>)))))))))"

definition FinishLNURLPay ::
  "'db world \<Rightarrow> 'db Service \<Rightarrow> LNURLPayResponse1 \<Rightarrow> (error + LNUrlPayInfo) \<times> 'db Service" where
  "FinishLNURLPay w a params =
     (case FinishLNURLPay_request w params of
        Inl e \<Rightarrow> (Inl e, a)
      | Inr payResponse2 \<Rightarrow> FinishLNURLPay_verify w a params payResponse2)"

subsection \<open>\<^verbatim>\<open>DecryptLNUrlPayMessage\<close>\<close>

text \<open>
  The stored record is fetched, its success action is copied field by field into an
  \<^verbatim>\<open>lnurl.SuccessAction\<close> (reading through the pointer \<^verbatim>\<open>info.SuccessAction\<close>), an empty
  ciphertext is refused, the action is deciphered with the preimage, and the record with the
  plaintext as its message is saved.
\<close>

definition DecryptLNUrlPayMessage ::
  "'db world \<Rightarrow> 'db Service \<Rightarrow> string \<Rightarrow> bytes \<Rightarrow> (error + string) \<times> 'db Service" where
  "DecryptLNUrlPayMessage w a paymentHash preimage =
     (case FetchLNUrlPayInfo w (breezDB a) paymentHash of
        Inl err \<Rightarrow> (Inl (FetchPayInfoFailed err), a)
      | Inr None \<Rightarrow> (Inl PayInfoNotFound, a)
      | Inr (Some info) \<Rightarrow>
          (case PayInfo_SuccessAction info of
             None \<Rightarrow> (Inl NilPointerDereference, a)
           | Some stored \<Rightarrow>
               (let sa = \<lparr> Tag = Tag stored,
                            Description = Description stored,
                            Url = Url stored,
                            Message = Message stored,
                            Ciphertext = Ciphertext stored,
                            Iv = Iv stored \<rparr>
                in
                if Ciphertext sa = []
                then (Inl CipherTextEmpty, a)
                else
                  (case Decipher w sa preimage of
                     Inl err \<Rightarrow> (Inl (DecryptFailed err), a)
                   | Inr message \<Rightarrow>
                       (let info' = info\<lparr>PayInfo_SuccessAction :=
                                           Some (stored\<lparr>Message := message\<rparr>)\<rparr>
                        in
                        case SaveLNUrlPayInfo w (breezDB a) info' of
                          (Some err, db') \<Rightarrow> (Inl (SaveFailed err), a\<lparr>breezDB := db'\<rparr>)
                        | (None, db') \<Rightarrow> (Inr message, a\<lparr>breezDB := db'\<rparr>))))))"

subsection \<open>\<^verbatim>\<open>FinishLNURLAuth\<close> and \<^verbatim>\<open>getLNURLAuthKey\<close>\<close>

text \<open>\<^verbatim>\<open>data.LNURLAuth\<close>, the parameter of \<^verbatim>\<open>FinishLNURLAuth\<close>.\<close>

record LNURLAuth =
  Auth_Tag :: string
  Auth_Callback :: string
  K1 :: string
  Auth_Host :: string
  Jwt :: bool

definition getLNURLAuthKey :: "'db world \<Rightarrow> 'db Service \<Rightarrow> (error + bip32_Key) \<times> 'db Service" where
  "getLNURLAuthKey w a =
     (case FetchLNURLAuthKey w (breezDB a) (bip32_NewSeed w) of
        (Inl err, needsBackup, db') \<Rightarrow> (Inl (FetchLNURLKeyFailed err), a\<lparr>breezDB := db'\<rparr>)
      | (Inr key, needsBackup, db') \<Rightarrow>
          (let a' = a\<lparr>breezDB := (if needsBackup then requestBackup w db' else db')\<rparr> in
           case bip32_NewMasterKey w key of
             Inl err \<Rightarrow> (Inl (MasterKeyFailed err), a')
           | Inr masterKey \<Rightarrow> (Inr masterKey, a')))"

text \<open>\<^verbatim>\<open>binary.BigEndian.Uint32\<close> on a slice of four bytes.\<close>

definition BigEndian_Uint32 :: "bytes \<Rightarrow> 32 word" where
  "BigEndian_Uint32 b =
     ucast (b ! 3) OR push_bit 8 (ucast (b ! 2)) OR push_bit 16 (ucast (b ! 1))
       OR push_bit 24 (ucast (b ! 0))"

text \<open>
  The inner loop
  \<^verbatim>\<open>for key, err = key.NewChildKey(nextChildIndex); err != nil; { nextChildIndex++ }\<close>.
  The call of \<^verbatim>\<open>NewChildKey\<close> is the init statement of the \<^verbatim>\<open>for\<close>: it runs once, before the
  first test of the condition. The loop has no post statement, and its body only increments
  the index, so the pair \<^verbatim>\<open>(key, err)\<close> that the condition reads is the result \<open>r\<close> of that one
  call in every iteration. A run that never leaves the loop is \<open>None\<close>.
\<close>

partial_function (option) childKeyLoop ::
  "lib_error + bip32_Key \<Rightarrow> 32 word \<Rightarrow> (bip32_Key \<times> 32 word) option" where
  "childKeyLoop r nextChildIndex =
     (case r of
        Inl err \<Rightarrow> childKeyLoop r (nextChildIndex + 1)
      | Inr key \<Rightarrow> Some (key, nextChildIndex))"

declare childKeyLoop.simps [code]

text \<open>
  The outer loop \<^verbatim>\<open>for i := 0; i < 4; i++\<close>, over the list of the values of \<^verbatim>\<open>i\<close>: the index is
  read from \<^verbatim>\<open>first16[i*4 : i*4+4]\<close> and the key is replaced by the child key.
\<close>

fun derivationPath :: "'db world \<Rightarrow> bytes \<Rightarrow> bip32_Key \<Rightarrow> nat list \<Rightarrow> bip32_Key option" where
  "derivationPath w first16 key [] = Some key"
| "derivationPath w first16 key (i # is) =
     (let nextChildIndex = BigEndian_Uint32 (take 4 (drop (i * 4) first16)) in
      case childKeyLoop (NewChildKey w key nextChildIndex) nextChildIndex of
        None \<Rightarrow> None
      | Some (key', _) \<Rightarrow> derivationPath w first16 key' is)"

text \<open>
  The first part of \<^verbatim>\<open>FinishLNURLAuth\<close>, up to the linking key pair: the master key, the
  HMAC-SHA256 of the host under the bytes \<^verbatim>\<open>key.Key\<close> of the master key, the first 16 bytes of
  it, the four derivations, and \<^verbatim>\<open>btcec.PrivKeyFromBytes\<close> on the bytes of the last key.
  (\<^verbatim>\<open>h.Write\<close> of a hash never returns an error; \<^verbatim>\<open>sha[:16]\<close> panics on a shorter slice.)
\<close>

definition linkingKey ::
  "'db world \<Rightarrow> 'db Service \<Rightarrow> LNURLAuth \<Rightarrow> ((error + bytes \<times> bytes) \<times> 'db Service) option" where
  "linkingKey w a authParams =
     (case getLNURLAuthKey w a of
        (Inl err, a') \<Rightarrow> Some (Inl err, a')
      | (Inr key, a') \<Rightarrow>
          (let sha = hmac_sha256 w (Key key) (bytes_of_string (Auth_Host authParams)) in
           if length sha < 16 then Some (Inl SliceOutOfRange, a')
           else
             (let first16 = take 16 sha in
              case derivationPath w first16 key [0, 1, 2, 3] of
                None \<Rightarrow> None
              | Some key' \<Rightarrow> Some (Inr (PrivKeyFromBytes w (Key key')), a'))))"

text \<open>
  The rest of \<^verbatim>\<open>FinishLNURLAuth\<close>: the challenge is decoded and signed, the signature is
  converted to DER, the callback is called with \<^verbatim>\<open>key\<close>, \<^verbatim>\<open>sig\<close> and the optional \<^verbatim>\<open>jwt\<close>, and
  the response \<open>(status, reason, token)\<close> is checked.
\<close>

definition FinishLNURLAuth ::
  "'db world \<Rightarrow> 'db Service \<Rightarrow> LNURLAuth \<Rightarrow> ((error + string) \<times> 'db Service) option" where
  "FinishLNURLAuth w a authParams =
     (case linkingKey w a authParams of
        None \<Rightarrow> None
      | Some (Inl err, a') \<Rightarrow> Some (Inl err, a')
      | Some (Inr (linkingPrivKey, linkingPubKey), a') \<Rightarrow>
          Some
           (case hex_DecodeString (K1 authParams) of
              (k1Decoded, Some err) \<Rightarrow> (Inl (K1DecodeFailed err), a')
            | (k1Decoded, None) \<Rightarrow>
           (case Sign w linkingPrivKey k1Decoded of
              Inl err \<Rightarrow> (Inl (SignFailed err), a')
            | Inr sig \<Rightarrow>
           (case NewSigFromSignature w sig of
              Inl err \<Rightarrow> (Inl (WireSigFailed err), a')
            | Inr wireSig \<Rightarrow>
           (case url_Parse w (Auth_Callback authParams) of
              Inl err \<Rightarrow> (Inl (InvalidCallbackUrl err), a')
            | Inr url \<Rightarrow>
           (let query = RawQuery url
                  @ [(''key'', hex_EncodeToString (SerializeCompressed w linkingPubKey))]
                  @ [(''sig'', hex_EncodeToString (ToSignatureBytes w wireSig))]
                  @ (if Jwt authParams then [(''jwt'', ''true'')] else [])
            in
            case http_Get w (url\<lparr>RawQuery := query\<rparr>) of
              Inl err \<Rightarrow> (Inl (ExternalError err), a')
            | Inr resp \<Rightarrow>
                (case json_Decode_LoginResponse w (Body resp) of
                   Inl err \<Rightarrow> (Inl (ExternalError err), a')
                 | Inr (status, reason, token) \<Rightarrow>
                     if status = ''ERROR'' then (Inl (ProtocolError reason), a')
                     else (Inr token, a'))))))))"

subsection \<open>The data of the sweep planner\<close>

text \<open>\<^verbatim>\<open>var targets = []int{2, 6, 25}\<close>\<close>

definition targets :: "int list" where
  "targets = [2, 6, 25]"

text \<open>The address types of \<^verbatim>\<open>lnrpc\<close> and of \<^verbatim>\<open>lnwallet\<close>.\<close>

datatype lnrpc_AddressType =
  WITNESS_PUBKEY_HASH | NESTED_PUBKEY_HASH | UNUSED_WITNESS_PUBKEY_HASH | UNUSED_NESTED_PUBKEY_HASH

datatype lnwallet_AddressType = WitnessPubKey | NestedWitnessPubKey

text \<open>\<^verbatim>\<open>lnrpc.Utxo\<close>, an entry of the response of \<^verbatim>\<open>ListUnspent\<close>; amounts are \<^verbatim>\<open>int64\<close>.\<close>

record lnrpc_Utxo =
  AddressType :: lnrpc_AddressType
  AmountSat :: "64 word"
  PkScript :: string
  TxidBytes :: bytes
  OutputIndex :: "32 word"
  Confirmations :: "64 word"

text \<open>\<^verbatim>\<open>lnwallet.Utxo\<close> with its \<^verbatim>\<open>wire.OutPoint\<close>.\<close>

record Utxo =
  Utxo_AddressType :: lnwallet_AddressType
  Utxo_Value :: "64 word"
  Utxo_Confirmations :: "64 word"
  Utxo_PkScript :: bytes
  OutPoint_Hash :: bytes
  OutPoint_Index :: "32 word"

text \<open>\<^verbatim>\<open>wire.MsgTx\<close>: the outpoints spent, and the outputs (\<^verbatim>\<open>wire.TxOut\<close>).\<close>

record TxOut =
  Value :: "64 word"
  TxOut_PkScript :: bytes

record MsgTx =
  TxIn :: "(bytes \<times> 32 word) list"
  TxOuts :: "TxOut list"

text \<open>\<^verbatim>\<open>data.TransactionDetails\<close> and \<^verbatim>\<open>data.SweepAllCoinsTransactions\<close>.\<close>

record TransactionDetails =
  Tx :: bytes
  TxHash :: string
  Fees :: "64 word"

record SweepAllCoinsTransactions_result =
  Amt :: "64 word"
  Transactions :: "32 word \<rightharpoonup> TransactionDetails"

text \<open>The state of an \<^verbatim>\<open>rpcUtxoSource\<close>; \<^verbatim>\<open>NewRpcUtxoSource\<close> leaves the total at zero.\<close>

record rpcUtxoSource =
  totalAmount :: "64 word"

definition NewRpcUtxoSource :: rpcUtxoSource where
  "NewRpcUtxoSource = \<lparr> totalAmount = 0 \<rparr>"

text \<open>
  An error of the sweep builder: \<open>isRuleError\<close> is the test
  \<^verbatim>\<open>errors.As(err, &ruleErr)\<close> for a \<^verbatim>\<open>blockchain.RuleError\<close>.
\<close>

datatype builder_error = RuleError lib_error | OtherError lib_error

fun isRuleError :: "builder_error \<Rightarrow> bool" where
  "isRuleError (RuleError e) = True"
| "isRuleError (OtherError e) = False"

fun builder_error_text :: "builder_error \<Rightarrow> lib_error" where
  "builder_error_text (RuleError e) = e"
| "builder_error_text (OtherError e) = e"

text \<open>
  What the planner calls outside \<^verbatim>\<open>sweep.go\<close>; \<open>'addr\<close> is a decoded \<^verbatim>\<open>btcutil.Address\<close>.
  \<^item> \<open>ListUnspent c\<close> is the response of the remote wallet to the listing made while the
    tier \<open>c\<close> is built.
  \<^item> \<open>CraftSweepAllTx\<close> is the builder \<^verbatim>\<open>sweep.CraftSweepAllTx\<close> of lnd, with the fee rate, the
    dust limit, the block height and the destination. The builder calls
    \<^verbatim>\<open>ListUnspentWitness\<close> of the source it is given once; its fifth argument here is the
    result of that call.
\<close>

record 'addr sweep_world =
  DecodeAddress :: "string \<Rightarrow> lib_error + 'addr"
  IsForNet :: "'addr \<Rightarrow> bool"
  Address_String :: "'addr \<Rightarrow> string"
  ParsePubKey :: "bytes \<Rightarrow> lib_error + bytes"
  GetInfo :: "lib_error + 32 word"
  WalletKitClient_nil :: bool
  EstimateFee :: "32 word \<Rightarrow> lib_error + 64 word"
  DefaultDustLimit :: "64 word"
  ListUnspent :: "int \<Rightarrow> lib_error + lnrpc_Utxo list"
  CraftSweepAllTx ::
    "64 word \<Rightarrow> 64 word \<Rightarrow> 32 word \<Rightarrow> 'addr \<Rightarrow> error + Utxo list \<Rightarrow> builder_error + MsgTx"
  Serialize :: "MsgTx \<Rightarrow> lib_error + bytes"
  MsgTx_TxHash :: "MsgTx \<Rightarrow> string"

subsection \<open>\<^verbatim>\<open>ListUnspentWitness\<close>\<close>

text \<open>\<^verbatim>\<open>chainhash.Hash.SetBytes\<close>: a hash has 32 bytes.\<close>

definition SetBytes :: "bytes \<Rightarrow> lib_error + bytes" where
  "SetBytes newHash =
     (if length newHash \<noteq> 32 then Inl ''invalid hash length'' else Inr newHash)"

text \<open>
  The loop over the listed outputs, with the slice \<open>lu\<close> and the running total
  \<^verbatim>\<open>u.totalAmount\<close>; an error returns at once, with the total reached so far.
\<close>

fun ListUnspentWitness_loop ::
  "lnrpc_Utxo list \<Rightarrow> Utxo list \<Rightarrow> rpcUtxoSource \<Rightarrow> (error + Utxo list) \<times> rpcUtxoSource" where
  "ListUnspentWitness_loop [] lu u = (Inr lu, u)"
| "ListUnspentWitness_loop (utxo # rest) lu u =
     (case (case AddressType utxo of
              WITNESS_PUBKEY_HASH \<Rightarrow> Some WitnessPubKey
            | NESTED_PUBKEY_HASH \<Rightarrow> Some NestedWitnessPubKey
            | _ \<Rightarrow> None) of
        None \<Rightarrow> (Inl InvalidUtxoAddressType, u)
      | Some addrType \<Rightarrow>
     (case hex_DecodeString (PkScript utxo) of
        (pkScript, Some err) \<Rightarrow> (Inl (PkScriptDecodeFailed (PkScript utxo) err), u)
      | (pkScript, None) \<Rightarrow>
     (case SetBytes (TxidBytes utxo) of
        Inl err \<Rightarrow> (Inl (OutPointHashFailed err), u)
      | Inr outPointHash \<Rightarrow>
          ListUnspentWitness_loop rest
            (lu @ [\<lparr> Utxo_AddressType = addrType,
                     Utxo_Value = AmountSat utxo,
                     Utxo_Confirmations = Confirmations utxo,
                     Utxo_PkScript = pkScript,
                     OutPoint_Hash = outPointHash,
                     OutPoint_Index = OutputIndex utxo \<rparr>])
            (u\<lparr>totalAmount := totalAmount u + AmountSat utxo\<rparr>))))"

definition ListUnspentWitness ::
  "'addr sweep_world \<Rightarrow> int \<Rightarrow> rpcUtxoSource \<Rightarrow> (error + Utxo list) \<times> rpcUtxoSource" where
  "ListUnspentWitness w c u =
     (case ListUnspent w c of
        Inl err \<Rightarrow> (Inl (ListUnspentFailed err), u)
      | Inr utxos \<Rightarrow> ListUnspentWitness_loop utxos [] (u\<lparr>totalAmount := 0\<rparr>))"

subsection \<open>\<^verbatim>\<open>SweepAllCoinsTransactions\<close>\<close>

definition determineFeePerKw :: "'addr sweep_world \<Rightarrow> int \<Rightarrow> error + 64 word" where
  "determineFeePerKw w confTarget =
     (if WalletKitClient_nil w then Inl ApiNotReady
      else
        (case EstimateFee w (word_of_int confTarget) of
           Inl err \<Rightarrow> Inl (EstimateFeeFailed confTarget err)
         | Inr satPerKw \<Rightarrow> Inr satPerKw))"

text \<open>The loop \<^verbatim>\<open>for _, output := range sweepTxPkg.SweepTx.TxOut { amtOut += output.Value }\<close>.\<close>

definition amtOut :: "MsgTx \<Rightarrow> 64 word" where
  "amtOut sweepTx = foldl (\<lambda>acc output. acc + Value output) 0 (TxOuts sweepTx)"

text \<open>
  One iteration of the loop over \<^verbatim>\<open>targets\<close>: it returns from the whole function with an
  error, or goes on to the next target without an entry (\<^verbatim>\<open>continue\<close>), or stores the
  details of the transaction under the target and sets the variable \<^verbatim>\<open>totalAmount\<close> (\<open>tot\<close>).
\<close>

datatype tier_outcome =
    Abort error
  | Continue
  | Produced TransactionDetails "64 word"

definition sweepTier :: "'addr sweep_world \<Rightarrow> 32 word \<Rightarrow> 'addr \<Rightarrow> int \<Rightarrow> tier_outcome" where
  "sweepTier w blockHeight targetAddr confTarget =
     (case determineFeePerKw w confTarget of
        Inl err \<Rightarrow> Abort (DetermineFeeFailed confTarget err)
      | Inr feePerKw \<Rightarrow>
          (case ListUnspentWitness w confTarget NewRpcUtxoSource of
             (listed, rus) \<Rightarrow>
               (case CraftSweepAllTx w feePerKw (DefaultDustLimit w) blockHeight targetAddr listed of
                  Inl err \<Rightarrow>
                    if isRuleError err then Continue
                    else Abort (CraftSweepFailed (builder_error_text err))
                | Inr sweepTx \<Rightarrow>
                    (case Serialize w sweepTx of
                       Inl err \<Rightarrow> Abort (SerializeFailed err)
                     | Inr rawTx \<Rightarrow>
                         Produced
                           \<lparr> Tx = rawTx,
                             TxHash = MsgTx_TxHash w sweepTx,
                             Fees = totalAmount rus - amtOut sweepTx \<rparr>
                           (totalAmount rus)))))"

fun sweepLoop ::
  "'addr sweep_world \<Rightarrow> 32 word \<Rightarrow> 'addr \<Rightarrow> int list
     \<Rightarrow> (32 word \<rightharpoonup> TransactionDetails) \<Rightarrow> 64 word
     \<Rightarrow> error + SweepAllCoinsTransactions_result" where
  "sweepLoop w blockHeight targetAddr [] td tot =
     Inr \<lparr> Amt = tot, Transactions = td \<rparr>"
| "sweepLoop w blockHeight targetAddr (confTarget # rest) td tot =
     (case sweepTier w blockHeight targetAddr confTarget of
        Abort err \<Rightarrow> Inl err
      | Continue \<Rightarrow> sweepLoop w blockHeight targetAddr rest td tot
      | Produced details tot' \<Rightarrow>
          sweepLoop w blockHeight targetAddr rest
            (td(word_of_int confTarget \<mapsto> details)) tot')"

text \<open>
  The function over a list of confirmation targets; \<^verbatim>\<open>SweepAllCoinsTransactions\<close> runs it on
  the global \<^verbatim>\<open>targets\<close>. The error of \<^verbatim>\<open>hex.DecodeString\<close> is dropped and the bytes it
  returns are given to \<^verbatim>\<open>btcec.ParsePubKey\<close>.
\<close>

definition sweepAllCoinsOver ::
  "'addr sweep_world \<Rightarrow> int list \<Rightarrow> string \<Rightarrow> error + SweepAllCoinsTransactions_result" where
  "sweepAllCoinsOver w ts address =
     (case DecodeAddress w address of
        Inl err \<Rightarrow> Inl (ExternalError err)
      | Inr targetAddr \<Rightarrow>
          if \<not> IsForNet w targetAddr then Inl (NotForNet (Address_String w targetAddr))
          else
            (case ParsePubKey w (fst (hex_DecodeString address)) of
               Inr pubKey \<Rightarrow> Inl PubkeyDestinationRejected
             | Inl err \<Rightarrow>
                 (case GetInfo w of
                    Inl err \<Rightarrow> Inl (GetInfoFailed err)
                  | Inr blockHeight \<Rightarrow>
                      sweepLoop w blockHeight targetAddr ts Map.empty 0)))"

definition SweepAllCoinsTransactions ::
  "'addr sweep_world \<Rightarrow> string \<Rightarrow> error + SweepAllCoinsTransactions_result" where
  "SweepAllCoinsTransactions w address = sweepAllCoinsOver w targets address"

subsection \<open>Example worlds\<close>

text \<open>
  Small, total stand-ins for the functions of the other packages, on which the definitions
  above can be evaluated. They are not the cryptographic functions: the hash pads or cuts
  its input to 32 bytes, the invoice decoder returns an invoice of 1,000,000 millisatoshi
  whose description hash is the hash of \<^verbatim>\<open>hi\<close>, key derivation always succeeds. The database is
  the stored key, if any, and the list of the stored pay infos.
\<close>

definition example_invoice :: Invoice where
  "example_invoice =
     \<lparr> DescriptionHash = Some (take 32 (bytes_of_string ''hi'' @ replicate 32 0)),
       MilliSat = Some 1000000,
       Invoice_PaymentHash = Some (replicate 32 1) \<rparr>"

definition example_payResponse2 :: LNURLPayResponse2 where
  "example_payResponse2 =
     \<lparr> Status = ''OK'', Reason = [], PR = ''lnbc'',
       PayResponse2_SuccessAction = None, Routes = [] \<rparr>"

definition example_world :: "(bytes option \<times> LNUrlPayInfo list) world" where
  "example_world =
     \<lparr> sha256_Sum256 = (\<lambda>bs. take 32 (bs @ replicate 32 0)),
       hmac_sha256 = (\<lambda>k m. take 32 (m @ k @ replicate 32 0)),
       url_Parse = (\<lambda>s. Inr \<lparr> parsed = s, RawQuery = [] \<rparr>),
       rand_Read = (\<lambda>n. Inr (replicate n 0)),
       http_Get = (\<lambda>u. Inr \<lparr> StatusCode = 200, Response_Status = ''200 OK'', Body = [] \<rparr>),
       json_Decode_PayResponse2 = (\<lambda>b. Inr example_payResponse2),
       json_Decode_LoginResponse = (\<lambda>b. Inr (''OK'', [], ''token'')),
       zpay32_Decode = (\<lambda>pr. Inr example_invoice),
       Metadata_Description = (\<lambda>m. ''hi''),
       Decipher = (\<lambda>sa key. if key = replicate 32 7 then Inr ''secret'' else Inl ''bad key''),
       bip32_NewSeed = Inr (replicate 32 9),
       bip32_NewMasterKey =
         (\<lambda>seed. Inr \<lparr> Key = seed, ChainCode = [], Depth = 0, ChildNumber = [],
                       FingerPrint = [], IsPrivate = True \<rparr>),
       NewChildKey = (\<lambda>k i. Inr (k\<lparr>Depth := Depth k + 1\<rparr>)),
       PrivKeyFromBytes = (\<lambda>b. (b, b)),
       Sign = (\<lambda>k m. Inr (k @ m)),
       NewSigFromSignature = (\<lambda>sig. Inr sig),
       ToSignatureBytes = (\<lambda>sig. sig),
       SerializeCompressed = (\<lambda>k. k),
       FetchLNURLAuthKey =
         (\<lambda>db seed.
            case fst db of
              Some key \<Rightarrow> (Inr key, False, db)
            | None \<Rightarrow>
                (case seed of
                   Inl e \<Rightarrow> (Inl e, True, db)
                 | Inr key \<Rightarrow> (Inr key, True, (Some key, snd db)))),
       requestBackup = (\<lambda>db. db),
       FetchLNUrlPayInfo = (\<lambda>db h. Inr (find (\<lambda>i. PaymentHash i = h) (snd db))),
       SaveLNUrlPayInfo =
         (\<lambda>db i. (None, (fst db, i # filter (\<lambda>j. PaymentHash j \<noteq> PaymentHash i) (snd db)))) \<rparr>"

definition example_service :: "(bytes option \<times> LNUrlPayInfo list) Service" where
  "example_service =
     \<lparr> lnurlWithdrawing = [],
       lnurlPayMetadata_encoded = ''hi'',
       lnurlPayMetadata_data = [ [''text/plain'', ''hi''] ],
       breezDB = (Some (replicate 32 5), []) \<rparr>"

definition example_params :: LNURLPayResponse1 where
  "example_params =
     \<lparr> Callback = ''https://service/pay'', Amount = 1000000, Comment = [],
       Host = ''service'', Metadata = [ [''text/plain'', ''hi''] ] \<rparr>"

definition example_auth :: LNURLAuth where
  "example_auth =
     \<lparr> Auth_Tag = ''login'', Auth_Callback = ''https://service/auth'', K1 = ''00ff'',
       Auth_Host = ''service'', Jwt = False \<rparr>"

definition example_payinfo :: "string \<Rightarrow> string \<Rightarrow> LNUrlPayInfo" where
  "example_payinfo tag ciphertext =
     \<lparr> PaymentHash = ''aa'',
       PayInfo_SuccessAction =
         Some \<lparr> Tag = tag, Description = [], Url = [], Message = [],
                Ciphertext = ciphertext, Iv = ''iv'' \<rparr>,
       PayInfo_Comment = [], InvoiceDescription = ''hi'', PayInfo_Host = ''service'',
       PayInfo_Metadata = [], PayInfo_Invoice = ''lnbc'' \<rparr>"

text \<open>
  A wallet with two confirmed outputs of 60,000 and 40,000 satoshi. The builder spends all
  listed outputs into one output of their total minus the fee rate (a transaction of weight
  1000), and refuses an output below the dust limit with a rule error.
\<close>

definition example_utxo :: "64 word \<Rightarrow> lnrpc_Utxo" where
  "example_utxo amount =
     \<lparr> AddressType = WITNESS_PUBKEY_HASH, AmountSat = amount, PkScript = ''0014'',
       TxidBytes = replicate 32 0, OutputIndex = 0, Confirmations = 3 \<rparr>"

definition example_builder ::
  "64 word \<Rightarrow> 64 word \<Rightarrow> 32 word \<Rightarrow> string \<Rightarrow> error + Utxo list \<Rightarrow> builder_error + MsgTx" where
  "example_builder feePerKw dustLimit blockHeight addr listed =
     (case listed of
        Inl e \<Rightarrow> Inl (OtherError ''unable to fetch+lock wallet utxos'')
      | Inr utxos \<Rightarrow>
          (let sweepAmt = sum_list (map Utxo_Value utxos) - feePerKw in
           if sweepAmt <s dustLimit then Inl (RuleError ''output below dust'')
           else Inr \<lparr> TxIn = map (\<lambda>u. (OutPoint_Hash u, OutPoint_Index u)) utxos,
                      TxOuts = [\<lparr> Value = sweepAmt, TxOut_PkScript = [] \<rparr>] \<rparr>))"

definition example_sweep_world :: "string sweep_world" where
  "example_sweep_world =
     \<lparr> DecodeAddress = (\<lambda>s. if s = [] then Inl ''empty address'' else Inr s),
       IsForNet = (\<lambda>a. True),
       Address_String = (\<lambda>a. a),
       ParsePubKey =
         (\<lambda>b. if length b = 33 \<and> (hd b = 2 \<or> hd b = 3) then Inr b
              else Inl ''malformed public key''),
       GetInfo = Inr 700000,
       WalletKitClient_nil = False,
       EstimateFee = (\<lambda>c. Inr (if c = 2 then 99900 else if c = 6 then 2500 else 253)),
       DefaultDustLimit = 573,
       ListUnspent = (\<lambda>c. Inr [example_utxo 60000, example_utxo 40000]),
       CraftSweepAllTx = example_builder,
       Serialize = (\<lambda>tx. Inr []),
       MsgTx_TxHash = (\<lambda>tx. ''txid'') \<rparr>"
section \<open>Properties\<close>

subsection \<open>Hexadecimal encoding is injective\<close>

text \<open>
  \<^verbatim>\<open>FinishLNURLPay\<close> compares the two hashes through their hexadecimal encodings. Two byte
  strings with the same encoding are equal, so the comparison is a comparison of the bytes.
\<close>

lemma hex_nibble_lt: "unat (drop_bit 4 (v::byte)) < 16" "unat (v AND 0x0f) < 16"
proof -
  have "unat v < 256" using unsigned_less[of v, where ?'a=nat] by simp
  moreover have "unat (drop_bit 4 v) = unat v div 16"
    by (simp add: unat_drop_bit_eq drop_bit_eq_div unat_div)
  ultimately show "unat (drop_bit 4 v) < 16" by arith
  have "v AND 0x0f \<le> 0x0f" by (rule word_and_le1)
  then show "unat (v AND 0x0f) < 16" by (simp add: word_le_nat_alt)
qed

lemma hextable_inj: "i < 16 \<Longrightarrow> j < 16 \<Longrightarrow> hextable ! i = hextable ! j \<Longrightarrow> i = j"
proof -
  have d: "distinct hextable" by (simp add: hextable_def)
  have l: "length hextable = 16" by (simp add: hextable_def)
  show "i < 16 \<Longrightarrow> j < 16 \<Longrightarrow> hextable ! i = hextable ! j \<Longrightarrow> i = j"
    using d l by (simp add: nth_eq_iff_index_eq)
qed

lemma byte_nibbles_eq:
  fixes v v' :: byte
  assumes "drop_bit 4 v = drop_bit 4 v'" "v AND 0x0f = v' AND 0x0f"
  shows "v = v'"
proof -
  have m: "(0x0f :: byte) = mask 4" by (simp add: mask_eq_exp_minus_1)
  have "take_bit 4 v = take_bit 4 v'" using assms(2) by (simp add: m take_bit_eq_mask)
  then have "push_bit 4 (drop_bit 4 v) + take_bit 4 v = push_bit 4 (drop_bit 4 v') + take_bit 4 v'"
    using assms(1) by simp
  then show ?thesis by (simp add: bits_ident)
qed

lemma hex_EncodeToString_inj: "hex_EncodeToString xs = hex_EncodeToString ys \<Longrightarrow> xs = ys"
proof (induction xs arbitrary: ys)
  case Nil
  then show ?case by (cases ys) (simp_all add: hex_EncodeToString_def)
next
  case (Cons x xs)
  show ?case
  proof (cases ys)
    case Nil
    with Cons.prems show ?thesis by (simp add: hex_EncodeToString_def)
  next
    case (Cons y ys')
    with Cons.prems have hd: "hextable ! unat (drop_bit 4 x) = hextable ! unat (drop_bit 4 y)"
      and lo: "hextable ! unat (x AND 0x0f) = hextable ! unat (y AND 0x0f)"
      and tl: "hex_EncodeToString xs = hex_EncodeToString ys'"
      by (simp_all add: hex_EncodeToString_def)
    have "unat (drop_bit 4 x) = unat (drop_bit 4 y)"
      using hd hex_nibble_lt(1) by (rule_tac hextable_inj) auto
    then have hi': "drop_bit 4 x = drop_bit 4 y"
      by (rule word_unat_eq_iff [THEN iffD2])
    have "unat (x AND 0x0f) = unat (y AND 0x0f)"
      using lo hex_nibble_lt(2) by (rule_tac hextable_inj) auto
    then have lo': "x AND 0x0f = y AND 0x0f"
      by (rule word_unat_eq_iff [THEN iffD2])
    from hi' lo' have "x = y" by (rule byte_nibbles_eq)
    with tl Cons.IH Cons show ?thesis by simp
  qed
qed

lemma hex_EncodeToString_eq_iff [simp]:
  "hex_EncodeToString xs = hex_EncodeToString ys \<longleftrightarrow> xs = ys"
  using hex_EncodeToString_inj by blast

subsection \<open>The checks of \<^verbatim>\<open>FinishLNURLPay\<close>\<close>

lemma FinishLNURLPay_verify_Inr:
  assumes "fst (FinishLNURLPay_verify w a params payResponse2) = Inr info"
  shows "\<exists>invoice. zpay32_Decode w (PR payResponse2) = Inr invoice
           \<and> DescriptionHash invoice
               = Some (sha256_Sum256 w (bytes_of_string (lnurlPayMetadata_encoded a)))
           \<and> MilliSat invoice = Some (Amount params)"
  using assms
  by (auto simp: FinishLNURLPay_verify_def Let_def split: sum.splits option.splits if_splits)

lemma FinishLNURLPay_Inr:
  assumes "fst (FinishLNURLPay w a params) = Inr info"
  shows "\<exists>payResponse2 invoice.
           FinishLNURLPay_request w params = Inr payResponse2
           \<and> zpay32_Decode w (PR payResponse2) = Inr invoice
           \<and> DescriptionHash invoice
               = Some (sha256_Sum256 w (bytes_of_string (lnurlPayMetadata_encoded a)))
           \<and> MilliSat invoice = Some (Amount params)"
proof (cases "FinishLNURLPay_request w params")
  case (Inl e)
  with assms show ?thesis by (simp add: FinishLNURLPay_def)
next
  case (Inr payResponse2)
  with assms have "fst (FinishLNURLPay_verify w a params payResponse2) = Inr info"
    by (simp add: FinishLNURLPay_def)
  from FinishLNURLPay_verify_Inr [OF this] Inr show ?thesis by blast
qed

text \<open>
  Claim C1. \<^verbatim>\<open>FinishLNURLPay\<close> returns a pay info only if the invoice of the response carries
  a description hash equal, byte for byte, to the SHA-256 hash of the encoded metadata stored
  at resolution time. Whenever the decoded invoice has a description hash that differs from
  it, the call fails with \<open>HashMismatch\<close>, returns no pay info and leaves the service (and so
  the database) as it was.
\<close>

theorem FinishLNURLPay_hash_check:
  "(\<forall>info. fst (FinishLNURLPay w a params) = Inr info \<longrightarrow>
      (\<exists>payResponse2 invoice.
          FinishLNURLPay_request w params = Inr payResponse2
          \<and> zpay32_Decode w (PR payResponse2) = Inr invoice
          \<and> DescriptionHash invoice
              = Some (sha256_Sum256 w (bytes_of_string (lnurlPayMetadata_encoded a)))))
   \<and> (\<forall>payResponse2 invoice h.
        FinishLNURLPay_request w params = Inr payResponse2
        \<and> zpay32_Decode w (PR payResponse2) = Inr invoice
        \<and> DescriptionHash invoice = Some h
        \<and> h \<noteq> sha256_Sum256 w (bytes_of_string (lnurlPayMetadata_encoded a))
        \<longrightarrow> FinishLNURLPay w a params = (Inl HashMismatch, a))"
proof (intro conjI allI impI)
  fix info
  assume "fst (FinishLNURLPay w a params) = Inr info"
  from FinishLNURLPay_Inr [OF this]
  show "\<exists>payResponse2 invoice.
          FinishLNURLPay_request w params = Inr payResponse2
          \<and> zpay32_Decode w (PR payResponse2) = Inr invoice
          \<and> DescriptionHash invoice
              = Some (sha256_Sum256 w (bytes_of_string (lnurlPayMetadata_encoded a)))"
    by blast
next
  fix payResponse2 invoice h
  assume "FinishLNURLPay_request w params = Inr payResponse2
        \<and> zpay32_Decode w (PR payResponse2) = Inr invoice
        \<and> DescriptionHash invoice = Some h
        \<and> h \<noteq> sha256_Sum256 w (bytes_of_string (lnurlPayMetadata_encoded a))"
  then show "FinishLNURLPay w a params = (Inl HashMismatch, a)"
    by (auto simp: FinishLNURLPay_def FinishLNURLPay_verify_def)
qed



text \<open>Evaluation in the example world.\<close>

lemma FinishLNURLPay_request_zpay32_Decode_update:
  "FinishLNURLPay_request (w\<lparr>zpay32_Decode := d\<rparr>) params = FinishLNURLPay_request w params"
  by (auto simp: FinishLNURLPay_request_def Let_def split: sum.splits)

lemma example_request:
  "FinishLNURLPay_request example_world example_params = Inr example_payResponse2"
  by (simp add: FinishLNURLPay_request_def example_world_def example_params_def
      example_payResponse2_def)

lemma example_sha256:
  "sha256_Sum256 example_world (bytes_of_string (lnurlPayMetadata_encoded example_service))
   = the (DescriptionHash example_invoice)"
  by (simp add: example_world_def example_service_def example_invoice_def)

lemma example_hash_nonzero: "replicate 32 0 \<noteq> the (DescriptionHash example_invoice)"
proof
  assume "replicate 32 0 = the (DescriptionHash example_invoice)"
  then have "hd (replicate 32 (0::byte)) = hd (the (DescriptionHash example_invoice))"
    by simp
  then show False
    by (simp add: example_invoice_def bytes_of_string_def)
qed

lemma example_amount: "Amount example_params = 1000000"
  by (simp add: example_params_def)

lemma example_DescriptionHash:
  "DescriptionHash example_invoice = Some (the (DescriptionHash example_invoice))"
  by (simp add: example_invoice_def)

lemma example_accept:
  "fst (FinishLNURLPay example_world example_service example_params)
     = Inr \<lparr> PaymentHash = hex_EncodeToString (replicate 32 1),
             PayInfo_SuccessAction = None, PayInfo_Comment = [],
             InvoiceDescription = ''hi'', PayInfo_Host = ''service'',
             PayInfo_Metadata = [ [''text/plain'', ''hi''] ],
             PayInfo_Invoice = ''lnbc'' \<rparr>"
proof -
  have dec: "zpay32_Decode example_world pr = Inr example_invoice" for pr
    by (simp add: example_world_def)
  show ?thesis
    by (simp add: FinishLNURLPay_def example_request FinishLNURLPay_verify_def dec)
      (simp add: example_world_def example_invoice_def example_service_def example_params_def
         example_payResponse2_def Let_def)
qed

theorem FinishLNURLPay_hash_check_witness:
  "fst (FinishLNURLPay example_world example_service example_params)
     = Inr \<lparr> PaymentHash = hex_EncodeToString (replicate 32 1),
             PayInfo_SuccessAction = None, PayInfo_Comment = [],
             InvoiceDescription = ''hi'', PayInfo_Host = ''service'',
             PayInfo_Metadata = [ [''text/plain'', ''hi''] ],
             PayInfo_Invoice = ''lnbc'' \<rparr>
   \<and> DescriptionHash example_invoice
       = Some (sha256_Sum256 example_world
                (bytes_of_string (lnurlPayMetadata_encoded example_service)))
   \<and> FinishLNURLPay
        (example_world\<lparr>zpay32_Decode :=
           \<lambda>pr. Inr (example_invoice\<lparr>DescriptionHash := Some (replicate 32 0)\<rparr>)\<rparr>)
        example_service example_params
       = (Inl HashMismatch, example_service)"
proof (intro conjI)
  let ?w = "example_world\<lparr>zpay32_Decode :=
              \<lambda>pr. Inr (example_invoice\<lparr>DescriptionHash := Some (replicate 32 0)\<rparr>)\<rparr>"
  have dec: "zpay32_Decode example_world pr = Inr example_invoice" for pr
    by (simp add: example_world_def)
  show "fst (FinishLNURLPay example_world example_service example_params)
     = Inr \<lparr> PaymentHash = hex_EncodeToString (replicate 32 1),
             PayInfo_SuccessAction = None, PayInfo_Comment = [],
             InvoiceDescription = ''hi'', PayInfo_Host = ''service'',
             PayInfo_Metadata = [ [''text/plain'', ''hi''] ],
             PayInfo_Invoice = ''lnbc'' \<rparr>"
    by (rule example_accept)
  from FinishLNURLPay_hash_check [of example_world example_service example_params,
      THEN conjunct1, rule_format, OF example_accept]
  show "DescriptionHash example_invoice
       = Some (sha256_Sum256 example_world
                (bytes_of_string (lnurlPayMetadata_encoded example_service)))"
    by (auto simp: example_request dec)
  have hyp: "FinishLNURLPay_request ?w example_params = Inr example_payResponse2
        \<and> zpay32_Decode ?w (PR example_payResponse2)
            = Inr (example_invoice\<lparr>DescriptionHash := Some (replicate 32 0)\<rparr>)
        \<and> DescriptionHash (example_invoice\<lparr>DescriptionHash := Some (replicate 32 0)\<rparr>)
            = Some (replicate 32 0)
        \<and> replicate 32 0
            \<noteq> sha256_Sum256 ?w (bytes_of_string (lnurlPayMetadata_encoded example_service))"
    by (simp add: FinishLNURLPay_request_zpay32_Decode_update example_request example_sha256
        example_hash_nonzero)
  from FinishLNURLPay_hash_check [of ?w example_service example_params,
      THEN conjunct2, rule_format, OF hyp]
  show "FinishLNURLPay ?w example_service example_params = (Inl HashMismatch, example_service)" .
qed

text \<open>
  Claim C4. \<^verbatim>\<open>FinishLNURLPay\<close> returns a pay info only if the amount of the invoice, in
  millisatoshi, equals \<^verbatim>\<open>params.Amount\<close>. When the invoice has passed the hash check and its
  amount differs from the requested one, by whatever difference, the call fails with
  \<open>AmountMismatch\<close>. In the example, 1,000,000 against 1,000,000 is accepted and 1,000,000
  against 999,000 is refused.
\<close>

theorem FinishLNURLPay_amount_check:
  "(\<forall>info. fst (FinishLNURLPay w a params) = Inr info \<longrightarrow>
      (\<exists>payResponse2 invoice.
          FinishLNURLPay_request w params = Inr payResponse2
          \<and> zpay32_Decode w (PR payResponse2) = Inr invoice
          \<and> MilliSat invoice = Some (Amount params)))
   \<and> (\<forall>payResponse2 invoice milliSat.
        FinishLNURLPay_request w params = Inr payResponse2
        \<and> zpay32_Decode w (PR payResponse2) = Inr invoice
        \<and> DescriptionHash invoice
            = Some (sha256_Sum256 w (bytes_of_string (lnurlPayMetadata_encoded a)))
        \<and> MilliSat invoice = Some milliSat
        \<and> milliSat \<noteq> Amount params
        \<longrightarrow> FinishLNURLPay w a params = (Inl AmountMismatch, a))"
proof (intro conjI allI impI)
  fix info
  assume "fst (FinishLNURLPay w a params) = Inr info"
  from FinishLNURLPay_Inr [OF this]
  show "\<exists>payResponse2 invoice.
          FinishLNURLPay_request w params = Inr payResponse2
          \<and> zpay32_Decode w (PR payResponse2) = Inr invoice
          \<and> MilliSat invoice = Some (Amount params)"
    by blast
next
  fix payResponse2 invoice milliSat
  assume "FinishLNURLPay_request w params = Inr payResponse2
        \<and> zpay32_Decode w (PR payResponse2) = Inr invoice
        \<and> DescriptionHash invoice
            = Some (sha256_Sum256 w (bytes_of_string (lnurlPayMetadata_encoded a)))
        \<and> MilliSat invoice = Some milliSat
        \<and> milliSat \<noteq> Amount params"
  then show "FinishLNURLPay w a params = (Inl AmountMismatch, a)"
    by (auto simp: FinishLNURLPay_def FinishLNURLPay_verify_def)
qed

theorem FinishLNURLPay_amount_check_witness:
  "fst (FinishLNURLPay example_world example_service example_params)
     = Inr \<lparr> PaymentHash = hex_EncodeToString (replicate 32 1),
             PayInfo_SuccessAction = None, PayInfo_Comment = [],
             InvoiceDescription = ''hi'', PayInfo_Host = ''service'',
             PayInfo_Metadata = [ [''text/plain'', ''hi''] ],
             PayInfo_Invoice = ''lnbc'' \<rparr>
   \<and> Amount example_params = 1000000
   \<and> MilliSat example_invoice = Some (Amount example_params)
   \<and> FinishLNURLPay
        (example_world\<lparr>zpay32_Decode :=
           \<lambda>pr. Inr (example_invoice\<lparr>MilliSat := Some 999000\<rparr>)\<rparr>)
        example_service example_params
       = (Inl AmountMismatch, example_service)"
proof (intro conjI)
  let ?w = "example_world\<lparr>zpay32_Decode :=
              \<lambda>pr. Inr (example_invoice\<lparr>MilliSat := Some 999000\<rparr>)\<rparr>"
  have dec: "zpay32_Decode example_world pr = Inr example_invoice" for pr
    by (simp add: example_world_def)
  show "fst (FinishLNURLPay example_world example_service example_params)
     = Inr \<lparr> PaymentHash = hex_EncodeToString (replicate 32 1),
             PayInfo_SuccessAction = None, PayInfo_Comment = [],
             InvoiceDescription = ''hi'', PayInfo_Host = ''service'',
             PayInfo_Metadata = [ [''text/plain'', ''hi''] ],
             PayInfo_Invoice = ''lnbc'' \<rparr>"
    by (rule example_accept)
  show "Amount example_params = 1000000"
    by (rule example_amount)
  from FinishLNURLPay_amount_check [of example_world example_service example_params,
      THEN conjunct1, rule_format, OF example_accept]
  show "MilliSat example_invoice = Some (Amount example_params)"
    by (auto simp: example_request dec)
  have hyp: "FinishLNURLPay_request ?w example_params = Inr example_payResponse2
        \<and> zpay32_Decode ?w (PR example_payResponse2)
            = Inr (example_invoice\<lparr>MilliSat := Some 999000\<rparr>)
        \<and> DescriptionHash (example_invoice\<lparr>MilliSat := Some 999000\<rparr>)
            = Some (sha256_Sum256 ?w (bytes_of_string (lnurlPayMetadata_encoded example_service)))
        \<and> MilliSat (example_invoice\<lparr>MilliSat := Some 999000\<rparr>) = Some 999000
        \<and> 999000 \<noteq> Amount example_params"
    using example_DescriptionHash
    by (simp add: FinishLNURLPay_request_zpay32_Decode_update example_request example_sha256
        example_amount)
  from FinishLNURLPay_amount_check [of ?w example_service example_params,
      THEN conjunct2, rule_format, OF hyp]
  show "FinishLNURLPay ?w example_service example_params = (Inl AmountMismatch, example_service)" .
qed

text \<open>
  Claim C10. \<^verbatim>\<open>invoice.MilliSat\<close> is read through the pointer without a nil check. For a
  response whose invoice decodes and passes the hash check but carries no amount, the
  amount step neither returns \<open>AmountMismatch\<close> nor an invalid-invoice error: the run ends in
  the nil pointer panic, and nothing is saved.
\<close>

theorem FinishLNURLPay_nil_amount:
  assumes "FinishLNURLPay_request w params = Inr payResponse2"
    and "zpay32_Decode w (PR payResponse2) = Inr invoice"
    and "DescriptionHash invoice
           = Some (sha256_Sum256 w (bytes_of_string (lnurlPayMetadata_encoded a)))"
    and "MilliSat invoice = None"
  shows "FinishLNURLPay w a params = (Inl NilPointerDereference, a)"
  using assms by (simp add: FinishLNURLPay_def FinishLNURLPay_verify_def)

theorem FinishLNURLPay_nil_amount_witness:
  "FinishLNURLPay
     (example_world\<lparr>zpay32_Decode := \<lambda>pr. Inr (example_invoice\<lparr>MilliSat := None\<rparr>)\<rparr>)
     example_service example_params
   = (Inl NilPointerDereference, example_service)"
proof -
  let ?w = "example_world\<lparr>zpay32_Decode := \<lambda>pr. Inr (example_invoice\<lparr>MilliSat := None\<rparr>)\<rparr>"
  have 1: "FinishLNURLPay_request ?w example_params = Inr example_payResponse2"
    by (simp add: FinishLNURLPay_request_zpay32_Decode_update example_request)
  have 2: "zpay32_Decode ?w (PR example_payResponse2)
             = Inr (example_invoice\<lparr>MilliSat := None\<rparr>)"
    by simp
  have 3: "DescriptionHash (example_invoice\<lparr>MilliSat := None\<rparr>)
             = Some (sha256_Sum256 ?w (bytes_of_string (lnurlPayMetadata_encoded example_service)))"
    using example_DescriptionHash by (simp add: example_sha256)
  have 4: "MilliSat (example_invoice\<lparr>MilliSat := None\<rparr>) = None"
    by simp
  from FinishLNURLPay_nil_amount [OF 1 2 3 4] show ?thesis .
qed
subsection \<open>\<^verbatim>\<open>DecryptLNUrlPayMessage\<close>: what is required, and what a failure leaves behind\<close>

text \<open>Copying the six fields one by one gives the stored success action back.\<close>

lemma SuccessAction_copy [simp]:
  "\<lparr> Tag = Tag s, Description = Description s, Url = Url s, Message = Message s,
     Ciphertext = Ciphertext s, Iv = Iv s \<rparr> = (s :: SuccessAction)"
  by simp

lemma DecryptLNUrlPayMessage_Inr:
  assumes "fst (DecryptLNUrlPayMessage w a paymentHash preimage) = Inr message"
  shows "\<exists>info sa. FetchLNUrlPayInfo w (breezDB a) paymentHash = Inr (Some info)
           \<and> PayInfo_SuccessAction info = Some sa
           \<and> Ciphertext sa \<noteq> []
           \<and> Decipher w sa preimage = Inr message"
  using assms
  by (auto simp: DecryptLNUrlPayMessage_def Let_def
      split: sum.splits option.splits if_splits prod.splits)

lemma DecryptLNUrlPayMessage_db_changed:
  assumes "breezDB (snd (DecryptLNUrlPayMessage w a paymentHash preimage)) \<noteq> breezDB a"
  shows "\<exists>info sa message. FetchLNUrlPayInfo w (breezDB a) paymentHash = Inr (Some info)
           \<and> PayInfo_SuccessAction info = Some sa
           \<and> Decipher w sa preimage = Inr message"
  using assms
  by (auto simp: DecryptLNUrlPayMessage_def Let_def
      split: sum.splits option.splits if_splits prod.splits)

text \<open>
  Claim C8 states that decryption succeeds only for a success action with tag \<^verbatim>\<open>aes\<close> and a
  non-empty ciphertext. The function never reads the tag for a decision: a stored record with
  tag \<^verbatim>\<open>message\<close> and a non-empty ciphertext is handed to \<^verbatim>\<open>Decipher\<close>, and when that succeeds
  the plaintext is returned.
\<close>

theorem DecryptLNUrlPayMessage_tag_unchecked_counterexample:
  "Tag (the (PayInfo_SuccessAction (example_payinfo ''message'' ''abc''))) \<noteq> ''aes''
   \<and> FetchLNUrlPayInfo example_world (None, [example_payinfo ''message'' ''abc'']) ''aa''
       = Inr (Some (example_payinfo ''message'' ''abc''))
   \<and> fst (DecryptLNUrlPayMessage example_world
            (example_service\<lparr>breezDB := (None, [example_payinfo ''message'' ''abc''])\<rparr>)
            ''aa'' (replicate 32 7))
       = Inr ''secret''"
  by (simp add: DecryptLNUrlPayMessage_def example_world_def example_payinfo_def
      example_service_def Let_def)

text \<open>
  Claim C8, as the code has it. \<^verbatim>\<open>DecryptLNUrlPayMessage\<close> returns a plaintext only when the
  stored record has a success action with a non-empty ciphertext that \<^verbatim>\<open>Decipher\<close> decrypts
  under the preimage; and for every stored record whose success action has an empty
  ciphertext the call fails with \<open>CipherTextEmpty\<close>, returns no plaintext and leaves the
  service and the database as they were.
\<close>

theorem DecryptLNUrlPayMessage_requires_ciphertext:
  "(\<forall>message. fst (DecryptLNUrlPayMessage w a paymentHash preimage) = Inr message \<longrightarrow>
      (\<exists>info sa. FetchLNUrlPayInfo w (breezDB a) paymentHash = Inr (Some info)
           \<and> PayInfo_SuccessAction info = Some sa
           \<and> Ciphertext sa \<noteq> []
           \<and> Decipher w sa preimage = Inr message))
   \<and> (\<forall>info sa. FetchLNUrlPayInfo w (breezDB a) paymentHash = Inr (Some info)
           \<and> PayInfo_SuccessAction info = Some sa
           \<and> Ciphertext sa = []
        \<longrightarrow> DecryptLNUrlPayMessage w a paymentHash preimage = (Inl CipherTextEmpty, a))"
proof (intro conjI allI impI)
  fix message
  assume "fst (DecryptLNUrlPayMessage w a paymentHash preimage) = Inr message"
  from DecryptLNUrlPayMessage_Inr [OF this]
  show "\<exists>info sa. FetchLNUrlPayInfo w (breezDB a) paymentHash = Inr (Some info)
           \<and> PayInfo_SuccessAction info = Some sa
           \<and> Ciphertext sa \<noteq> []
           \<and> Decipher w sa preimage = Inr message" .
next
  fix info sa
  assume "FetchLNUrlPayInfo w (breezDB a) paymentHash = Inr (Some info)
           \<and> PayInfo_SuccessAction info = Some sa
           \<and> Ciphertext sa = []"
  then show "DecryptLNUrlPayMessage w a paymentHash preimage = (Inl CipherTextEmpty, a)"
    by (simp add: DecryptLNUrlPayMessage_def)
qed

text \<open>Evaluation in the example world.\<close>

lemma example_fetch:
  "FetchLNUrlPayInfo example_world (None, [example_payinfo tag c]) ''aa''
     = Inr (Some (example_payinfo tag c))"
  by (simp add: example_world_def example_payinfo_def)

lemma example_payinfo_SuccessAction:
  "PayInfo_SuccessAction (example_payinfo tag c)
     = Some \<lparr> Tag = tag, Description = [], Url = [], Message = [], Ciphertext = c, Iv = ''iv'' \<rparr>"
  by (simp add: example_payinfo_def)

lemma example_decrypt:
  "fst (DecryptLNUrlPayMessage example_world
          (example_service\<lparr>breezDB := (None, [example_payinfo ''aes'' ''abc''])\<rparr>)
          ''aa'' (replicate 32 7)) = Inr ''secret''"
  by (simp add: DecryptLNUrlPayMessage_def example_fetch example_payinfo_SuccessAction)
    (simp add: example_world_def Let_def)

theorem DecryptLNUrlPayMessage_requires_ciphertext_witness:
  "Decipher example_world
     \<lparr> Tag = ''aes'', Description = [], Url = [], Message = [], Ciphertext = ''abc'',
       Iv = ''iv'' \<rparr> (replicate 32 7) = Inr ''secret''
   \<and> DecryptLNUrlPayMessage example_world
        (example_service\<lparr>breezDB := (None, [example_payinfo ''aes'' []])\<rparr>)
        ''aa'' (replicate 32 7)
       = (Inl CipherTextEmpty, example_service\<lparr>breezDB := (None, [example_payinfo ''aes'' []])\<rparr>)"
proof (intro conjI)
  let ?a = "example_service\<lparr>breezDB := (None, [example_payinfo ''aes'' ''abc''])\<rparr>"
  let ?b = "example_service\<lparr>breezDB := (None, [example_payinfo ''aes'' []])\<rparr>"
  from DecryptLNUrlPayMessage_requires_ciphertext [of example_world ?a "''aa''" "replicate 32 7",
      THEN conjunct1, rule_format, OF example_decrypt]
  show "Decipher example_world
     \<lparr> Tag = ''aes'', Description = [], Url = [], Message = [], Ciphertext = ''abc'',
       Iv = ''iv'' \<rparr> (replicate 32 7) = Inr ''secret''"
    by (auto simp: example_fetch example_payinfo_SuccessAction)
  have hyp: "FetchLNUrlPayInfo example_world (breezDB ?b) ''aa''
               = Inr (Some (example_payinfo ''aes'' []))
           \<and> PayInfo_SuccessAction (example_payinfo ''aes'' [])
               = Some \<lparr> Tag = ''aes'', Description = [], Url = [], Message = [],
                        Ciphertext = [], Iv = ''iv'' \<rparr>
           \<and> Ciphertext \<lparr> Tag = ''aes'', Description = [], Url = [], Message = [],
                        Ciphertext = [], Iv = ''iv'' \<rparr> = []"
    by (simp add: example_fetch example_payinfo_SuccessAction)
  from DecryptLNUrlPayMessage_requires_ciphertext [of example_world ?b "''aa''" "replicate 32 7",
      THEN conjunct2, rule_format, OF hyp]
  show "DecryptLNUrlPayMessage example_world ?b ''aa'' (replicate 32 7)
          = (Inl CipherTextEmpty, ?b)" .
qed

text \<open>
  Claim C9. If \<^verbatim>\<open>Decipher\<close> fails (for instance because the preimage is not the key), the
  call returns the error \<open>DecryptFailed\<close> and the service, with its database, is the one
  it started from. The database differs after the call only if \<^verbatim>\<open>Decipher\<close> succeeded: the
  write comes after a successful decipher.
\<close>

theorem DecryptLNUrlPayMessage_failed_decipher:
  "(\<forall>info sa err.
       FetchLNUrlPayInfo w (breezDB a) paymentHash = Inr (Some info)
       \<and> PayInfo_SuccessAction info = Some sa
       \<and> Ciphertext sa \<noteq> []
       \<and> Decipher w sa preimage = Inl err
     \<longrightarrow> DecryptLNUrlPayMessage w a paymentHash preimage = (Inl (DecryptFailed err), a))
   \<and> (breezDB (snd (DecryptLNUrlPayMessage w a paymentHash preimage)) \<noteq> breezDB a \<longrightarrow>
        (\<exists>info sa message.
            FetchLNUrlPayInfo w (breezDB a) paymentHash = Inr (Some info)
            \<and> PayInfo_SuccessAction info = Some sa
            \<and> Decipher w sa preimage = Inr message))"
proof (intro conjI allI impI)
  fix info sa err
  assume "FetchLNUrlPayInfo w (breezDB a) paymentHash = Inr (Some info)
       \<and> PayInfo_SuccessAction info = Some sa
       \<and> Ciphertext sa \<noteq> []
       \<and> Decipher w sa preimage = Inl err"
  then show "DecryptLNUrlPayMessage w a paymentHash preimage = (Inl (DecryptFailed err), a)"
    by (simp add: DecryptLNUrlPayMessage_def)
next
  assume "breezDB (snd (DecryptLNUrlPayMessage w a paymentHash preimage)) \<noteq> breezDB a"
  from DecryptLNUrlPayMessage_db_changed [OF this]
  show "\<exists>info sa message.
            FetchLNUrlPayInfo w (breezDB a) paymentHash = Inr (Some info)
            \<and> PayInfo_SuccessAction info = Some sa
            \<and> Decipher w sa preimage = Inr message" .
qed

theorem DecryptLNUrlPayMessage_failed_decipher_witness:
  "DecryptLNUrlPayMessage example_world
      (example_service\<lparr>breezDB := (None, [example_payinfo ''aes'' ''abc''])\<rparr>)
      ''aa'' (replicate 32 8)
     = (Inl (DecryptFailed ''bad key''),
        example_service\<lparr>breezDB := (None, [example_payinfo ''aes'' ''abc''])\<rparr>)
   \<and> breezDB (snd (DecryptLNUrlPayMessage example_world
        (example_service\<lparr>breezDB := (None, [example_payinfo ''aes'' ''abc''])\<rparr>)
        ''aa'' (replicate 32 7)))
       \<noteq> (None, [example_payinfo ''aes'' ''abc''])
   \<and> Decipher example_world
        \<lparr> Tag = ''aes'', Description = [], Url = [], Message = [], Ciphertext = ''abc'',
          Iv = ''iv'' \<rparr> (replicate 32 7) = Inr ''secret''"
proof -
  let ?a = "example_service\<lparr>breezDB := (None, [example_payinfo ''aes'' ''abc''])\<rparr>"
  let ?sa = "\<lparr> Tag = ''aes'', Description = [], Url = [], Message = [], Ciphertext = ''abc'',
               Iv = ''iv'' \<rparr>"
  have bad: "Decipher example_world ?sa (replicate 32 8) = Inl ''bad key''"
    by (simp add: example_world_def)
  have hyp: "FetchLNUrlPayInfo example_world (breezDB ?a) ''aa''
               = Inr (Some (example_payinfo ''aes'' ''abc''))
           \<and> PayInfo_SuccessAction (example_payinfo ''aes'' ''abc'') = Some ?sa
           \<and> Ciphertext ?sa \<noteq> []
           \<and> Decipher example_world ?sa (replicate 32 8) = Inl ''bad key''"
    by (simp add: example_fetch example_payinfo_SuccessAction bad)
  note 1 = DecryptLNUrlPayMessage_failed_decipher [of example_world ?a "''aa''" "replicate 32 8",
      THEN conjunct1, rule_format, OF hyp]
  have changed: "breezDB (snd (DecryptLNUrlPayMessage example_world ?a ''aa'' (replicate 32 7)))
       \<noteq> breezDB ?a"
    by (simp add: DecryptLNUrlPayMessage_def example_fetch example_payinfo_SuccessAction)
      (simp add: example_world_def Let_def example_payinfo_def)
  from DecryptLNUrlPayMessage_failed_decipher [of example_world ?a "''aa''" "replicate 32 7",
      THEN conjunct2, rule_format, OF changed]
  have 3: "Decipher example_world ?sa (replicate 32 7) = Inr ''secret''"
    by (auto simp: example_fetch example_payinfo_SuccessAction) (simp add: example_world_def)
  from 1 changed 3 show ?thesis by simp
qed
subsection \<open>The linking key of \<^verbatim>\<open>FinishLNURLAuth\<close>\<close>

text \<open>
  The inner loop returns at once when the one call of \<^verbatim>\<open>NewChildKey\<close> succeeded, and never
  when it failed.
\<close>

lemma childKeyLoop_Inr [simp]: "childKeyLoop (Inr key) i = Some (key, i)"
  by (simp add: childKeyLoop.simps)

lemma childKeyLoop_Some_is_Inr:
  assumes "childKeyLoop r i = Some y"
  shows "\<exists>key. r = Inr key"
  by (rule childKeyLoop.raw_induct [OF _ assms]) (auto split: sum.splits)

lemma childKeyLoop_Inl [simp]: "childKeyLoop (Inl err) i = None"
proof (cases "childKeyLoop (Inl err) i")
  case None
  then show ?thesis .
next
  case (Some y)
  from childKeyLoop_Some_is_Inr [OF this] show ?thesis by simp
qed

lemma derivationPath_NewChildKey_cong:
  "NewChildKey w2 = NewChildKey w1 \<Longrightarrow>
     derivationPath w2 first16 key is = derivationPath w1 first16 key is"
  by (induction "is" arbitrary: key) (auto simp: Let_def split: option.splits)

lemma derivationPath_four:
  assumes "NewChildKey w key (BigEndian_Uint32 (take 4 first16)) = Inr key1"
    and "NewChildKey w key1 (BigEndian_Uint32 (take 4 (drop 4 first16))) = Inr key2"
    and "NewChildKey w key2 (BigEndian_Uint32 (take 4 (drop 8 first16))) = Inr key3"
    and "NewChildKey w key3 (BigEndian_Uint32 (take 4 (drop 12 first16))) = Inr key4"
  shows "derivationPath w first16 key [0, 1, 2, 3] = Some key4"
  using assms by (simp add: Let_def)

lemma linkingKey_Some_Inr:
  assumes "linkingKey w a authParams = Some (Inr keypair, a')"
    and "fst (FetchLNURLAuthKey w (breezDB a) (bip32_NewSeed w)) = Inr seed"
  shows "\<exists>masterKey key'.
           bip32_NewMasterKey w seed = Inr masterKey
           \<and> derivationPath w
                (take 16 (hmac_sha256 w (Key masterKey) (bytes_of_string (Auth_Host authParams))))
                masterKey [0, 1, 2, 3] = Some key'
           \<and> keypair = PrivKeyFromBytes w (Key key')"
  using assms
  by (auto simp: linkingKey_def getLNURLAuthKey_def Let_def
      simp del: derivationPath.simps
      split: sum.splits option.splits if_splits prod.splits)

lemma linkingKey_derives:
  assumes "FetchLNURLAuthKey w (breezDB a) (bip32_NewSeed w) = (Inr seed, needsBackup, db')"
    and "bip32_NewMasterKey w seed = Inr masterKey"
    and "sha = hmac_sha256 w (Key masterKey) (bytes_of_string (Auth_Host authParams))"
    and "16 \<le> length sha"
    and "NewChildKey w masterKey (BigEndian_Uint32 (take 4 (take 16 sha))) = Inr key1"
    and "NewChildKey w key1 (BigEndian_Uint32 (take 4 (drop 4 (take 16 sha)))) = Inr key2"
    and "NewChildKey w key2 (BigEndian_Uint32 (take 4 (drop 8 (take 16 sha)))) = Inr key3"
    and "NewChildKey w key3 (BigEndian_Uint32 (take 4 (drop 12 (take 16 sha)))) = Inr key4"
  shows "linkingKey w a authParams
           = Some (Inr (PrivKeyFromBytes w (Key key4)),
                   a\<lparr>breezDB := (if needsBackup then requestBackup w db' else db')\<rparr>)"
proof -
  have "derivationPath w (take 16 sha) masterKey [0, 1, 2, 3] = Some key4"
    using assms(5-8) by (rule derivationPath_four)
  then show ?thesis
    using assms(1-4)
    by (simp add: linkingKey_def getLNURLAuthKey_def Let_def del: derivationPath.simps)
qed

text \<open>Evaluation in the example world.\<close>

lemma example_master:
  "bip32_NewMasterKey example_world seed
     = Inr \<lparr> Key = seed, ChainCode = [], Depth = 0, ChildNumber = [], FingerPrint = [],
             IsPrivate = True \<rparr>"
  by (simp add: example_world_def)

lemma example_child: "NewChildKey example_world k i = Inr (k\<lparr>Depth := Depth k + 1\<rparr>)"
  by (simp add: example_world_def)

lemma example_hmac_length:
  "length (hmac_sha256 example_world k m) = 32"
  by (simp add: example_world_def)

lemma example_stored_key:
  "FetchLNURLAuthKey example_world (Some key, infos) seed = (Inr key, False, (Some key, infos))"
  by (simp add: example_world_def)

text \<open>
  Claim C2 states that an invalid child index makes the step retry with the next index, up to
  a maximum number of attempts, after which the derivation fails with
  \<^verbatim>\<open>KeyDerivationExhausted\<close>, so that the derivation always terminates. The code has no bound
  and no such error, and it calls \<^verbatim>\<open>NewChildKey\<close> once per step: in a world where the first
  index is refused and every other index is accepted, the run never leaves the inner loop.
\<close>

theorem linkingKey_unbounded_counterexample:
  "linkingKey
     (example_world\<lparr>NewChildKey :=
        \<lambda>k i. if i = 0x73657276 then Inl ''invalid child key''
              else Inr (k\<lparr>Depth := Depth k + 1\<rparr>)\<rparr>)
     example_service example_auth = None
   \<and> FinishLNURLAuth
     (example_world\<lparr>NewChildKey :=
        \<lambda>k i. if i = 0x73657276 then Inl ''invalid child key''
              else Inr (k\<lparr>Depth := Depth k + 1\<rparr>)\<rparr>)
     example_service example_auth = None"
proof -
  let ?w = "example_world\<lparr>NewChildKey :=
        \<lambda>k i. if i = 0x73657276 then Inl ''invalid child key''
              else Inr (k\<lparr>Depth := Depth k + 1\<rparr>)\<rparr>"
  have idx: "BigEndian_Uint32 [0x73, 0x65, 0x72, 0x76] = 0x73657276"
    by (simp add: BigEndian_Uint32_def)
  have "linkingKey ?w example_service example_auth = None"
    by (simp add: linkingKey_def getLNURLAuthKey_def example_service_def example_stored_key
        example_master Let_def example_auth_def)
      (simp add: example_world_def bytes_of_string_def idx)
  then show ?thesis by (simp add: FinishLNURLAuth_def)
qed

text \<open>
  Claim C2, as the code has it. The four indices are the four big-endian 32-bit integers in
  the first 16 bytes of the HMAC-SHA256 of the host, keyed with the bytes \<^verbatim>\<open>key.Key\<close> of the
  master key that \<^verbatim>\<open>bip32.NewMasterKey\<close> makes from the stored seed. Starting from the master
  key there are four derivation steps in sequence, one per index; when each of the four calls
  of \<^verbatim>\<open>NewChildKey\<close> succeeds, the derivation terminates with the key pair of the fourth
  child key. There is no bound on attempts and no exhaustion error.
\<close>

theorem linkingKey_four_derivations:
  assumes "FetchLNURLAuthKey w (breezDB a) (bip32_NewSeed w) = (Inr seed, needsBackup, db')"
    and "bip32_NewMasterKey w seed = Inr masterKey"
    and "sha = hmac_sha256 w (Key masterKey) (bytes_of_string (Auth_Host authParams))"
    and "16 \<le> length sha"
    and "NewChildKey w masterKey (BigEndian_Uint32 (take 4 (take 16 sha))) = Inr key1"
    and "NewChildKey w key1 (BigEndian_Uint32 (take 4 (drop 4 (take 16 sha)))) = Inr key2"
    and "NewChildKey w key2 (BigEndian_Uint32 (take 4 (drop 8 (take 16 sha)))) = Inr key3"
    and "NewChildKey w key3 (BigEndian_Uint32 (take 4 (drop 12 (take 16 sha)))) = Inr key4"
  shows "linkingKey w a authParams
           = Some (Inr (PrivKeyFromBytes w (Key key4)),
                   a\<lparr>breezDB := (if needsBackup then requestBackup w db' else db')\<rparr>)"
  using assms by (rule linkingKey_derives)

theorem linkingKey_four_derivations_witness:
  "linkingKey example_world example_service example_auth
     = Some (Inr (replicate 32 5, replicate 32 5), example_service)"
proof -
  let ?m = "\<lparr> Key = replicate 32 5, ChainCode = [], Depth = 0, ChildNumber = [],
              FingerPrint = [], IsPrivate = True \<rparr>"
  have 1: "FetchLNURLAuthKey example_world (breezDB example_service) (bip32_NewSeed example_world)
             = (Inr (replicate 32 5), False, (Some (replicate 32 5), []))"
    by (simp add: example_service_def example_stored_key)
  note r = linkingKey_four_derivations [of example_world example_service "replicate 32 5"
      False "(Some (replicate 32 5), [])" ?m _ example_auth,
      OF 1 example_master refl _ example_child example_child example_child example_child]
  have "PrivKeyFromBytes example_world b = (b, b)" for b
    by (simp add: example_world_def)
  then show ?thesis
    using r by (simp add: example_hmac_length) (simp add: example_service_def)
qed


text \<open>
  Claim C5. The key pair depends on the stored seed and on the host only. Take two runs, in
  worlds that agree on the four pure functions (HMAC, master key, child key, key pair from
  bytes) and may differ in everything else: the random seed offered to the database, the
  state of the service and of the database, the challenge, the callback and the \<^verbatim>\<open>jwt\<close> flag.
  If the database hands out the same seed in both and the host is the same, two runs that
  succeed return the same key pair.
\<close>

theorem linkingKey_deterministic:
  assumes "hmac_sha256 w2 = hmac_sha256 w1"
    and "bip32_NewMasterKey w2 = bip32_NewMasterKey w1"
    and "NewChildKey w2 = NewChildKey w1"
    and "PrivKeyFromBytes w2 = PrivKeyFromBytes w1"
    and "fst (FetchLNURLAuthKey w1 (breezDB a1) (bip32_NewSeed w1)) = Inr seed"
    and "fst (FetchLNURLAuthKey w2 (breezDB a2) (bip32_NewSeed w2)) = Inr seed"
    and "Auth_Host authParams2 = Auth_Host authParams1"
    and "linkingKey w1 a1 authParams1 = Some (Inr keypair1, a1')"
    and "linkingKey w2 a2 authParams2 = Some (Inr keypair2, a2')"
  shows "keypair1 = keypair2"
proof -
  let ?first16 = "\<lambda>masterKey. take 16 (hmac_sha256 w1 (Key masterKey)
                    (bytes_of_string (Auth_Host authParams1)))"
  from linkingKey_Some_Inr [OF assms(8) assms(5)]
  obtain m1 k1 where 1: "bip32_NewMasterKey w1 seed = Inr m1"
    "derivationPath w1 (?first16 m1) m1 [0, 1, 2, 3] = Some k1"
    "keypair1 = PrivKeyFromBytes w1 (Key k1)"
    by blast
  from linkingKey_Some_Inr [OF assms(9) assms(6)]
  obtain m2 k2 where 2: "bip32_NewMasterKey w1 seed = Inr m2"
    "derivationPath w2 (?first16 m2) m2 [0, 1, 2, 3] = Some k2"
    "keypair2 = PrivKeyFromBytes w1 (Key k2)"
    unfolding assms(1,2,4,7) by blast
  from 1(1) 2(1) have m: "m2 = m1" by simp
  have "derivationPath w2 (?first16 m1) m1 [0, 1, 2, 3]
          = derivationPath w1 (?first16 m1) m1 [0, 1, 2, 3]"
    by (rule derivationPath_NewChildKey_cong [OF assms(3)])
  with 1(2) 2(2) have "k2 = k1" by (simp only: m option.inject)
  with 1(3) 2(3) show ?thesis by simp
qed


theorem linkingKey_deterministic_witness:
  "linkingKey example_world example_service example_auth
     = Some (Inr (replicate 32 5, replicate 32 5), example_service)
   \<and> fst (the (linkingKey
        (example_world\<lparr>bip32_NewSeed := Inl ''no entropy'', http_Get := \<lambda>u. Inl ''offline''\<rparr>)
        (example_service\<lparr>lnurlWithdrawing := ''https://service/withdraw'',
           breezDB := (Some (replicate 32 5), [example_payinfo ''aes'' ''abc''])\<rparr>)
        (example_auth\<lparr>K1 := ''ff00'', Jwt := True\<rparr>)))
       = Inr (replicate 32 5, replicate 32 5)"
proof -
  let ?w2 = "example_world\<lparr>bip32_NewSeed := Inl ''no entropy'', http_Get := \<lambda>u. Inl ''offline''\<rparr>"
  let ?db2 = "(Some (replicate 32 5), [example_payinfo ''aes'' ''abc''])"
  let ?a2 = "example_service\<lparr>lnurlWithdrawing := ''https://service/withdraw'', breezDB := ?db2\<rparr>"
  let ?p2 = "example_auth\<lparr>K1 := ''ff00'', Jwt := True\<rparr>"
  let ?m = "\<lparr> Key = replicate 32 5, ChainCode = [], Depth = 0, ChildNumber = [],
              FingerPrint = [], IsPrivate = True \<rparr>"
  have pk: "PrivKeyFromBytes example_world b = (b, b)" for b
    by (simp add: example_world_def)
  have f1: "FetchLNURLAuthKey example_world (breezDB example_service) (bip32_NewSeed example_world)
             = (Inr (replicate 32 5), False, (Some (replicate 32 5), []))"
    by (simp add: example_service_def example_stored_key)
  have l1: "linkingKey example_world example_service example_auth
              = Some (Inr (replicate 32 5, replicate 32 5), example_service)"
    using linkingKey_derives [of example_world example_service "replicate 32 5"
      False "(Some (replicate 32 5), [])" ?m _ example_auth,
      OF f1 example_master refl _ example_child example_child example_child example_child]
    by (simp add: example_hmac_length pk) (simp add: example_service_def)
  have f2: "FetchLNURLAuthKey ?w2 (breezDB ?a2) (bip32_NewSeed ?w2)
             = (Inr (replicate 32 5), False, ?db2)"
    by (simp add: example_stored_key)
  have l2: "linkingKey ?w2 ?a2 ?p2
              = Some (Inr (PrivKeyFromBytes ?w2 (Key (?m\<lparr>Depth := 4\<rparr>))), ?a2)"
    using linkingKey_derives [of ?w2 ?a2 "replicate 32 5"
      False ?db2 ?m _ ?p2, OF f2]
    by (simp add: example_hmac_length example_master example_child)
  have "(replicate 32 5, replicate 32 5) = PrivKeyFromBytes ?w2 (Key (?m\<lparr>Depth := 4\<rparr>))"
  proof (rule linkingKey_deterministic [OF _ _ _ _ _ _ _ l1 l2])
    show "fst (FetchLNURLAuthKey example_world (breezDB example_service)
                 (bip32_NewSeed example_world)) = Inr (replicate 32 5)"
      by (simp add: f1)
    show "fst (FetchLNURLAuthKey ?w2 (breezDB ?a2) (bip32_NewSeed ?w2)) = Inr (replicate 32 5)"
      by (simp add: example_stored_key)
  qed simp_all
  with l1 l2 show ?thesis by simp
qed

subsection \<open>The fee of a sweep transaction\<close>

text \<open>The loop over the outputs adds up their values.\<close>

lemma amtOut_sum_list: "amtOut sweepTx = sum_list (map Value (TxOuts sweepTx))"
proof -
  have f: "foldl (\<lambda>acc output. acc + Value output) s outs = s + sum_list (map Value outs)"
    for s :: "64 word" and outs
    by (induction outs arbitrary: s) (simp_all add: add.assoc)
  show ?thesis by (simp add: amtOut_def f)
qed

text \<open>
  A listing that succeeds returns one output per listed entry, with the entry's amount, and
  leaves in \<^verbatim>\<open>totalAmount\<close> the sum of these amounts (in \<^verbatim>\<open>int64\<close> arithmetic).
\<close>

lemma ListUnspentWitness_loop_Inr:
  "ListUnspentWitness_loop utxos lu u = (Inr lu', u') \<Longrightarrow>
     map Utxo_Value lu' = map Utxo_Value lu @ map AmountSat utxos
     \<and> totalAmount u' = totalAmount u + sum_list (map AmountSat utxos)"
proof (induction utxos arbitrary: lu u)
  case Nil
  then show ?case by simp
next
  case (Cons utxo rest)
  then show ?case
    by (auto simp: add.assoc split: option.splits prod.splits sum.splits lnrpc_AddressType.splits)
qed

lemma ListUnspentWitness_Inr:
  assumes "ListUnspentWitness w c NewRpcUtxoSource = (Inr lu, rus)"
  shows "\<exists>utxos. ListUnspent w c = Inr utxos
           \<and> map Utxo_Value lu = map AmountSat utxos
           \<and> totalAmount rus = sum_list (map Utxo_Value lu)"
proof (cases "ListUnspent w c")
  case (Inl e)
  with assms show ?thesis by (simp add: ListUnspentWitness_def)
next
  case (Inr utxos)
  with assms have "ListUnspentWitness_loop utxos [] (NewRpcUtxoSource\<lparr>totalAmount := 0\<rparr>)
                     = (Inr lu, rus)"
    by (simp add: ListUnspentWitness_def)
  from ListUnspentWitness_loop_Inr [OF this] Inr show ?thesis by simp
qed


text \<open>
  As long as the amounts are not negative and their sum is below \<open>2 ^ 63\<close>, the \<^verbatim>\<open>int64\<close>
  sums and their difference are the sums and the difference of the integers.
\<close>

lemma sint_sum_list:
  fixes xs :: "64 word list"
  assumes "\<forall>x\<in>set xs. 0 \<le> sint x" and "(\<Sum>x\<leftarrow>xs. sint x) < 2 ^ 63"
  shows "sint (sum_list xs) = (\<Sum>x\<leftarrow>xs. sint x)"
  using assms
proof (induction xs)
  case Nil
  then show ?case by simp
next
  case (Cons x xs)
  have nn: "0 \<le> (\<Sum>y\<leftarrow>xs. sint y)"
    using Cons.prems(1) by (intro sum_list_nonneg) auto
  have x0: "0 \<le> sint x" using Cons.prems(1) by simp
  have "(\<Sum>y\<leftarrow>xs. sint y) < 2 ^ 63" using Cons.prems(2) x0 by simp
  with Cons have ih: "sint (sum_list xs) = (\<Sum>y\<leftarrow>xs. sint y)" by simp
  have "sint (x + sum_list xs) = signed_take_bit 63 (sint x + sint (sum_list xs))"
    by (simp add: sint_word_ariths)
  also have "\<dots> = sint x + sint (sum_list xs)"
    using Cons.prems(2) x0 nn ih by (intro signed_take_bit_int_eq_self) simp_all
  finally show ?case by (simp add: ih)
qed

lemma sint_fee:
  fixes ins outs :: "64 word list"
  assumes "\<forall>x\<in>set ins. 0 \<le> sint x" and "(\<Sum>x\<leftarrow>ins. sint x) < 2 ^ 63"
    and "\<forall>x\<in>set outs. 0 \<le> sint x" and "(\<Sum>x\<leftarrow>outs. sint x) < 2 ^ 63"
  shows "sint (sum_list ins - sum_list outs) = (\<Sum>x\<leftarrow>ins. sint x) - (\<Sum>x\<leftarrow>outs. sint x)"
proof -
  have i: "sint (sum_list ins) = (\<Sum>x\<leftarrow>ins. sint x)" using assms(1,2) by (rule sint_sum_list)
  have out: "sint (sum_list outs) = (\<Sum>x\<leftarrow>outs. sint x)" using assms(3,4) by (rule sint_sum_list)
  have i0: "0 \<le> (\<Sum>x\<leftarrow>ins. sint x)" using assms(1) by (intro sum_list_nonneg) auto
  have o0: "0 \<le> (\<Sum>x\<leftarrow>outs. sint x)" using assms(3) by (intro sum_list_nonneg) auto
  have "sint (sum_list ins - sum_list outs)
          = signed_take_bit 63 (sint (sum_list ins) - sint (sum_list outs))"
    by (simp add: sint_word_ariths)
  also have "\<dots> = sint (sum_list ins) - sint (sum_list outs)"
    using assms(2,4) i0 o0 i out by (intro signed_take_bit_int_eq_self) simp_all
  finally show ?thesis by (simp add: i out)
qed

text \<open>Every entry of the result was produced by the iteration for its confirmation target.\<close>

lemma sweepTier_Produced:
  assumes "sweepTier w blockHeight targetAddr c = Produced d tot"
  shows "\<exists>feePerKw sweepTx.
           determineFeePerKw w c = Inr feePerKw
           \<and> CraftSweepAllTx w feePerKw (DefaultDustLimit w) blockHeight targetAddr
                (fst (ListUnspentWitness w c NewRpcUtxoSource)) = Inr sweepTx
           \<and> Fees d = totalAmount (snd (ListUnspentWitness w c NewRpcUtxoSource))
                        - sum_list (map Value (TxOuts sweepTx))"
  using assms
  by (auto simp: sweepTier_def amtOut_sum_list split: sum.splits if_splits prod.splits)

lemma sweepLoop_entries:
  assumes "sweepLoop w blockHeight targetAddr ts td tot = Inr r"
    and "\<And>k d. td k = Some d \<Longrightarrow>
           \<exists>c\<in>set cs. k = word_of_int c
             \<and> (\<exists>tot'. sweepTier w blockHeight targetAddr c = Produced d tot')"
    and "Transactions r k = Some d"
  shows "\<exists>c\<in>set cs \<union> set ts. k = word_of_int c
           \<and> (\<exists>tot'. sweepTier w blockHeight targetAddr c = Produced d tot')"
  using assms
proof (induction ts arbitrary: td tot cs)
  case Nil
  then show ?case by auto
next
  case (Cons c rest)
  show ?case
  proof (cases "sweepTier w blockHeight targetAddr c")
    case (Abort e)
    with Cons.prems(1) show ?thesis by simp
  next
    case Continue
    with Cons.prems(1) have "sweepLoop w blockHeight targetAddr rest td tot = Inr r" by simp
    from Cons.IH [OF this Cons.prems(2) Cons.prems(3)] show ?thesis by auto
  next
    case (Produced d' tot')
    with Cons.prems(1) have run:
      "sweepLoop w blockHeight targetAddr rest (td(word_of_int c \<mapsto> d')) tot' = Inr r"
      by simp
    have inv: "\<exists>c'\<in>set (c # cs). k' = word_of_int c'
                 \<and> (\<exists>t. sweepTier w blockHeight targetAddr c' = Produced d'' t)"
      if "(td(word_of_int c \<mapsto> d')) k' = Some d''" for k' d''
    proof (cases "k' = word_of_int c")
      case True
      with that have "d'' = d'" by simp
      with True Produced show ?thesis by auto
    next
      case False
      with that have "td k' = Some d''" by simp
      from Cons.prems(2) [OF this] show ?thesis by auto
    qed
    from Cons.IH [OF run inv Cons.prems(3)] show ?thesis by auto
  qed
qed

lemma sweepAllCoinsOver_Inr:
  assumes "sweepAllCoinsOver w ts address = Inr r"
  shows "\<exists>targetAddr blockHeight.
           DecodeAddress w address = Inr targetAddr \<and> IsForNet w targetAddr
           \<and> (\<exists>err. ParsePubKey w (fst (hex_DecodeString address)) = Inl err)
           \<and> GetInfo w = Inr blockHeight
           \<and> sweepLoop w blockHeight targetAddr ts Map.empty 0 = Inr r"
  using assms
  by (auto simp: sweepAllCoinsOver_def split: sum.splits if_splits)

text \<open>
  Claim C3, as the code has it. Every transaction in the result of
  \<^verbatim>\<open>SweepAllCoinsTransactions\<close> belongs to one of the confirmation targets, was returned by
  the builder for that target, and its reported fee is the total accumulated by the listing
  of that target minus the sum of the values of the transaction's outputs, in \<^verbatim>\<open>int64\<close>
  arithmetic. When the listing succeeded, that total is the sum of the values of all listed
  outputs, one for each entry of the wallet's response; and when no amount is negative and
  the sums stay below \<open>2 ^ 63\<close>, the fee is the difference of the two sums as integers.
  Nothing is said about the sign of the fee: the code does not test it.
\<close>

theorem SweepAllCoinsTransactions_fee:
  assumes "SweepAllCoinsTransactions w address = Inr r"
    and "Transactions r k = Some d"
  shows "\<exists>c\<in>set targets. \<exists>targetAddr blockHeight feePerKw sweepTx.
           k = word_of_int c
           \<and> DecodeAddress w address = Inr targetAddr
           \<and> GetInfo w = Inr blockHeight
           \<and> determineFeePerKw w c = Inr feePerKw
           \<and> CraftSweepAllTx w feePerKw (DefaultDustLimit w) blockHeight targetAddr
                (fst (ListUnspentWitness w c NewRpcUtxoSource)) = Inr sweepTx
           \<and> Fees d = totalAmount (snd (ListUnspentWitness w c NewRpcUtxoSource))
                        - sum_list (map Value (TxOuts sweepTx))
           \<and> (\<forall>lu. fst (ListUnspentWitness w c NewRpcUtxoSource) = Inr lu \<longrightarrow>
                 (\<exists>utxos. ListUnspent w c = Inr utxos
                    \<and> map Utxo_Value lu = map AmountSat utxos)
                 \<and> Fees d = sum_list (map Utxo_Value lu) - sum_list (map Value (TxOuts sweepTx))
                 \<and> ((\<forall>x\<in>set lu. 0 \<le> sint (Utxo_Value x))
                      \<and> (\<Sum>x\<leftarrow>lu. sint (Utxo_Value x)) < 2 ^ 63
                      \<and> (\<forall>x\<in>set (TxOuts sweepTx). 0 \<le> sint (Value x))
                      \<and> (\<Sum>x\<leftarrow>TxOuts sweepTx. sint (Value x)) < 2 ^ 63
                    \<longrightarrow> sint (Fees d)
                          = (\<Sum>x\<leftarrow>lu. sint (Utxo_Value x))
                            - (\<Sum>x\<leftarrow>TxOuts sweepTx. sint (Value x))))"
proof -
  from sweepAllCoinsOver_Inr [OF assms(1) [unfolded SweepAllCoinsTransactions_def]]
  obtain targetAddr blockHeight where
    a: "DecodeAddress w address = Inr targetAddr" and g: "GetInfo w = Inr blockHeight"
    and run: "sweepLoop w blockHeight targetAddr targets Map.empty 0 = Inr r"
    by blast
  have "\<exists>c\<in>set [] \<union> set targets. k = word_of_int c
          \<and> (\<exists>tot'. sweepTier w blockHeight targetAddr c = Produced d tot')"
    by (rule sweepLoop_entries [OF run _ assms(2)]) simp
  then obtain c tot' where c: "c \<in> set targets" "k = word_of_int c"
    and t: "sweepTier w blockHeight targetAddr c = Produced d tot'"
    by auto
  from sweepTier_Produced [OF t] obtain feePerKw sweepTx where
    f: "determineFeePerKw w c = Inr feePerKw"
    and b: "CraftSweepAllTx w feePerKw (DefaultDustLimit w) blockHeight targetAddr
                (fst (ListUnspentWitness w c NewRpcUtxoSource)) = Inr sweepTx"
    and fee: "Fees d = totalAmount (snd (ListUnspentWitness w c NewRpcUtxoSource))
                        - sum_list (map Value (TxOuts sweepTx))"
    by blast
  have listed: "(\<exists>utxos. ListUnspent w c = Inr utxos \<and> map Utxo_Value lu = map AmountSat utxos)
      \<and> Fees d = sum_list (map Utxo_Value lu) - sum_list (map Value (TxOuts sweepTx))
      \<and> ((\<forall>x\<in>set lu. 0 \<le> sint (Utxo_Value x))
           \<and> (\<Sum>x\<leftarrow>lu. sint (Utxo_Value x)) < 2 ^ 63
           \<and> (\<forall>x\<in>set (TxOuts sweepTx). 0 \<le> sint (Value x))
           \<and> (\<Sum>x\<leftarrow>TxOuts sweepTx. sint (Value x)) < 2 ^ 63
         \<longrightarrow> sint (Fees d)
               = (\<Sum>x\<leftarrow>lu. sint (Utxo_Value x)) - (\<Sum>x\<leftarrow>TxOuts sweepTx. sint (Value x)))"
    if l: "fst (ListUnspentWitness w c NewRpcUtxoSource) = Inr lu" for lu
  proof -
    have "ListUnspentWitness w c NewRpcUtxoSource
            = (Inr lu, snd (ListUnspentWitness w c NewRpcUtxoSource))"
      using l by (cases "ListUnspentWitness w c NewRpcUtxoSource") simp
    from ListUnspentWitness_Inr [OF this] obtain utxos where
      u: "ListUnspent w c = Inr utxos" "map Utxo_Value lu = map AmountSat utxos"
        "totalAmount (snd (ListUnspentWitness w c NewRpcUtxoSource))
           = sum_list (map Utxo_Value lu)"
      by blast
    have eq: "Fees d = sum_list (map Utxo_Value lu) - sum_list (map Value (TxOuts sweepTx))"
      using fee u(3) by simp
    have "sint (Fees d)
               = (\<Sum>x\<leftarrow>lu. sint (Utxo_Value x)) - (\<Sum>x\<leftarrow>TxOuts sweepTx. sint (Value x))"
      if "(\<forall>x\<in>set lu. 0 \<le> sint (Utxo_Value x))
           \<and> (\<Sum>x\<leftarrow>lu. sint (Utxo_Value x)) < 2 ^ 63
           \<and> (\<forall>x\<in>set (TxOuts sweepTx). 0 \<le> sint (Value x))
           \<and> (\<Sum>x\<leftarrow>TxOuts sweepTx. sint (Value x)) < 2 ^ 63"
      using sint_fee [of "map Utxo_Value lu" "map Value (TxOuts sweepTx)"] that
      by (simp add: eq o_def)
    with u eq show ?thesis by blast
  qed
  from c a g f b fee listed show ?thesis by blast
qed

text \<open>Evaluation in the example world.\<close>

lemma example_listing:
  "ListUnspentWitness (example_sweep_world\<lparr>EstimateFee := f\<rparr>) c NewRpcUtxoSource
     = (Inr [\<lparr> Utxo_AddressType = WitnessPubKey, Utxo_Value = 60000, Utxo_Confirmations = 3,
               Utxo_PkScript = [0, 20], OutPoint_Hash = replicate 32 0, OutPoint_Index = 0 \<rparr>,
             \<lparr> Utxo_AddressType = WitnessPubKey, Utxo_Value = 40000, Utxo_Confirmations = 3,
               Utxo_PkScript = [0, 20], OutPoint_Hash = replicate 32 0, OutPoint_Index = 0 \<rparr>],
        \<lparr> totalAmount = 100000 \<rparr>)"
  by (simp add: ListUnspentWitness_def example_sweep_world_def example_utxo_def
      NewRpcUtxoSource_def SetBytes_def fromHexChar_def)

lemma example_fee_rate:
  "determineFeePerKw (example_sweep_world\<lparr>EstimateFee := f\<rparr>) c = 
     (case f (word_of_int c) of Inl err \<Rightarrow> Inl (EstimateFeeFailed c err) | Inr r \<Rightarrow> Inr r)"
  by (simp add: determineFeePerKw_def example_sweep_world_def)

lemma example_tier_Continue:
  "f (word_of_int c) = Inr 99900 \<Longrightarrow>
   sweepTier (example_sweep_world\<lparr>EstimateFee := f\<rparr>) blockHeight targetAddr c = Continue"
  by (simp add: sweepTier_def example_fee_rate example_listing)
    (simp add: example_sweep_world_def example_builder_def word_sless_alt)

lemma example_tier_Produced:
  "f (word_of_int c) = Inr fee \<Longrightarrow> fee \<in> {0, 253, 2500} \<Longrightarrow>
   sweepTier (example_sweep_world\<lparr>EstimateFee := f\<rparr>) blockHeight targetAddr c
     = Produced \<lparr> Tx = [], TxHash = ''txid'', Fees = fee \<rparr> 100000"
  by (simp add: sweepTier_def example_fee_rate example_listing)
    (auto simp: example_sweep_world_def example_builder_def word_sless_alt amtOut_def)

lemma example_not_pubkey:
  "ParsePubKey example_sweep_world (fst (hex_DecodeString ''bc1qaddr''))
     = Inl ''malformed public key''"
  by (simp add: example_sweep_world_def fromHexChar_def)

lemma example_address:
  "DecodeAddress example_sweep_world ''bc1qaddr'' = Inr ''bc1qaddr''"
  "IsForNet example_sweep_world a"
  "GetInfo example_sweep_world = Inr 700000"
  by (simp_all add: example_sweep_world_def)

lemma example_estimate_update:
  "example_sweep_world\<lparr>EstimateFee := EstimateFee example_sweep_world\<rparr> = example_sweep_world"
  by simp

lemma example_sweep:
  "SweepAllCoinsTransactions example_sweep_world ''bc1qaddr''
     = Inr \<lparr> Amt = 100000,
             Transactions = [6 \<mapsto> \<lparr> Tx = [], TxHash = ''txid'', Fees = 2500 \<rparr>,
                             25 \<mapsto> \<lparr> Tx = [], TxHash = ''txid'', Fees = 253 \<rparr>] \<rparr>"
proof -
  let ?f = "EstimateFee example_sweep_world"
  have t2: "sweepTier example_sweep_world h a 2 = Continue" for h a
    using example_tier_Continue [of ?f 2 h a] by (simp add: example_sweep_world_def)
  have t6: "sweepTier example_sweep_world h a 6
              = Produced \<lparr> Tx = [], TxHash = ''txid'', Fees = 2500 \<rparr> 100000" for h a
    using example_tier_Produced [of ?f 6 2500 h a] by (simp add: example_sweep_world_def)
  have t25: "sweepTier example_sweep_world h a 25
              = Produced \<lparr> Tx = [], TxHash = ''txid'', Fees = 253 \<rparr> 100000" for h a
    using example_tier_Produced [of ?f 25 253 h a] by (simp add: example_sweep_world_def)
  show ?thesis
    by (simp add: SweepAllCoinsTransactions_def sweepAllCoinsOver_def targets_def
        example_address example_not_pubkey t2 t6 t25 del: hex_DecodeString.simps)
qed

theorem SweepAllCoinsTransactions_fee_witness:
  "SweepAllCoinsTransactions example_sweep_world ''bc1qaddr''
     = Inr \<lparr> Amt = 100000,
             Transactions = [6 \<mapsto> \<lparr> Tx = [], TxHash = ''txid'', Fees = 2500 \<rparr>,
                             25 \<mapsto> \<lparr> Tx = [], TxHash = ''txid'', Fees = 253 \<rparr>] \<rparr>
   \<and> (\<exists>c\<in>set targets. \<exists>sweepTx.
         (6 :: 32 word) = word_of_int c
         \<and> CraftSweepAllTx example_sweep_world 2500 (DefaultDustLimit example_sweep_world)
              700000 ''bc1qaddr''
              (fst (ListUnspentWitness example_sweep_world c NewRpcUtxoSource)) = Inr sweepTx
         \<and> (2500 :: 64 word) = 100000 - sum_list (map Value (TxOuts sweepTx)))"
proof -
  let ?r = "\<lparr> Amt = 100000,
             Transactions = [6 \<mapsto> \<lparr> Tx = [], TxHash = ''txid'', Fees = 2500 \<rparr>,
                             25 \<mapsto> \<lparr> Tx = [], TxHash = ''txid'', Fees = (253 :: 64 word) \<rparr>] \<rparr>"
  have k: "Transactions ?r 6 = Some \<lparr> Tx = [], TxHash = ''txid'', Fees = 2500 \<rparr>"
    by simp
  from SweepAllCoinsTransactions_fee [OF example_sweep k]
  obtain c targetAddr blockHeight feePerKw sweepTx where c: "c \<in> set targets"
    "(6 :: 32 word) = word_of_int c"
    "DecodeAddress example_sweep_world ''bc1qaddr'' = Inr targetAddr"
    "GetInfo example_sweep_world = Inr blockHeight"
    "determineFeePerKw example_sweep_world c = Inr feePerKw"
    "CraftSweepAllTx example_sweep_world feePerKw (DefaultDustLimit example_sweep_world)
       blockHeight targetAddr
       (fst (ListUnspentWitness example_sweep_world c NewRpcUtxoSource)) = Inr sweepTx"
    "Fees \<lparr> Tx = [], TxHash = ''txid'', Fees = 2500 \<rparr>
       = totalAmount (snd (ListUnspentWitness example_sweep_world c NewRpcUtxoSource))
           - sum_list (map Value (TxOuts sweepTx))"
    by blast
  from c(1,2) have c6: "c = 6" by (auto simp: targets_def)
  have s: "snd (ListUnspentWitness example_sweep_world c NewRpcUtxoSource)
             = \<lparr> totalAmount = 100000 \<rparr>"
    using example_listing [of "EstimateFee example_sweep_world" c] by simp
  have fee: "(2500 :: 64 word) = 100000 - sum_list (map Value (TxOuts sweepTx))"
    using c(7) s by simp
  have "targetAddr = ''bc1qaddr''" "blockHeight = 700000" "feePerKw = 2500"
    using c(3,4,5) by (simp_all add: example_sweep_world_def determineFeePerKw_def c6)
  with c(6) have b: "CraftSweepAllTx example_sweep_world 2500
       (DefaultDustLimit example_sweep_world) 700000 ''bc1qaddr''
       (fst (ListUnspentWitness example_sweep_world c NewRpcUtxoSource)) = Inr sweepTx"
    by simp
  from c(1,2) b fee have "\<exists>c\<in>set targets. \<exists>sweepTx.
         (6 :: 32 word) = word_of_int c
         \<and> CraftSweepAllTx example_sweep_world 2500 (DefaultDustLimit example_sweep_world)
              700000 ''bc1qaddr''
              (fst (ListUnspentWitness example_sweep_world c NewRpcUtxoSource)) = Inr sweepTx
         \<and> (2500 :: 64 word) = 100000 - sum_list (map Value (TxOuts sweepTx))"
    by blast
  with example_sweep show ?thesis by (rule conjI)
qed

text \<open>
  Claim C3 states moreover that the reported fee is strictly positive. The planner does not
  check the fee: it records whatever the builder returns. When the remote fee estimate is 0,
  a builder that pays the whole total to the destination is accepted for every target, and
  the reported fee is 0.
\<close>

theorem SweepAllCoinsTransactions_zero_fee_counterexample:
  "SweepAllCoinsTransactions (example_sweep_world\<lparr>EstimateFee := \<lambda>c. Inr 0\<rparr>) ''bc1qaddr''
     = Inr \<lparr> Amt = 100000,
             Transactions = [2 \<mapsto> \<lparr> Tx = [], TxHash = ''txid'', Fees = 0 \<rparr>,
                             6 \<mapsto> \<lparr> Tx = [], TxHash = ''txid'', Fees = 0 \<rparr>,
                             25 \<mapsto> \<lparr> Tx = [], TxHash = ''txid'', Fees = 0 \<rparr>] \<rparr>
   \<and> \<not> (0 <s (0 :: 64 word))"
proof -
  let ?w = "example_sweep_world\<lparr>EstimateFee := \<lambda>c. Inr 0\<rparr>"
  have t: "sweepTier ?w h a c = Produced \<lparr> Tx = [], TxHash = ''txid'', Fees = 0 \<rparr> 100000"
    for h a c
    using example_tier_Produced [of "\<lambda>c. Inr 0" c 0 h a] by simp
  have "SweepAllCoinsTransactions ?w ''bc1qaddr''
     = Inr \<lparr> Amt = 100000,
             Transactions = [2 \<mapsto> \<lparr> Tx = [], TxHash = ''txid'', Fees = 0 \<rparr>,
                             6 \<mapsto> \<lparr> Tx = [], TxHash = ''txid'', Fees = 0 \<rparr>,
                             25 \<mapsto> \<lparr> Tx = [], TxHash = ''txid'', Fees = 0 \<rparr>] \<rparr>"
    by (simp add: SweepAllCoinsTransactions_def sweepAllCoinsOver_def targets_def
        example_address example_not_pubkey t del: hex_DecodeString.simps)
  then show ?thesis by simp
qed

subsection \<open>Destinations that are public keys\<close>

text \<open>
  Claim C6. If the bytes that \<^verbatim>\<open>hex.DecodeString\<close> returns for the destination string parse
  as a public key, \<^verbatim>\<open>SweepAllCoinsTransactions\<close> fails and produces no transactions; and when
  the string is a valid address for the active network, the failure is
  \<open>PubkeyDestinationRejected\<close>.
\<close>

theorem SweepAllCoinsTransactions_rejects_pubkey:
  assumes "ParsePubKey w (fst (hex_DecodeString address)) = Inr pubKey"
  shows "(\<exists>err. SweepAllCoinsTransactions w address = Inl err)
         \<and> (\<forall>targetAddr. DecodeAddress w address = Inr targetAddr \<and> IsForNet w targetAddr
               \<longrightarrow> SweepAllCoinsTransactions w address = Inl PubkeyDestinationRejected)"
  using assms
  by (auto simp: SweepAllCoinsTransactions_def sweepAllCoinsOver_def split: sum.splits)

lemma example_pubkey_hex:
  "fst (hex_DecodeString ''02abababababababababababababababababababababababababababababababab'') = 2 # replicate 32 0xab"
  by (simp add: fromHexChar_def eval_nat_numeral del: replicate.simps)
    (simp add: numeral_eq_Suc)


theorem SweepAllCoinsTransactions_rejects_pubkey_witness:
  "ParsePubKey example_sweep_world (fst (hex_DecodeString ''02abababababababababababababababababababababababababababababababab''))
     = Inr (2 # replicate 32 0xab)
   \<and> DecodeAddress example_sweep_world ''02abababababababababababababababababababababababababababababababab'' = Inr ''02abababababababababababababababababababababababababababababababab''
   \<and> IsForNet example_sweep_world ''02abababababababababababababababababababababababababababababababab''
   \<and> SweepAllCoinsTransactions example_sweep_world ''02abababababababababababababababababababababababababababababababab''
       = Inl PubkeyDestinationRejected"
proof -
  have p: "ParsePubKey example_sweep_world (fst (hex_DecodeString ''02abababababababababababababababababababababababababababababababab''))
     = Inr (2 # replicate 32 0xab)"
    by (simp only: example_pubkey_hex) (simp add: example_sweep_world_def)
  have d: "DecodeAddress example_sweep_world ''02abababababababababababababababababababababababababababababababab'' = Inr ''02abababababababababababababababababababababababababababababababab''
           \<and> IsForNet example_sweep_world ''02abababababababababababababababababababababababababababababababab''"
    by (simp add: example_sweep_world_def)
  from SweepAllCoinsTransactions_rejects_pubkey [OF p, THEN conjunct2, rule_format, OF d] p d
  show ?thesis by simp
qed

subsection \<open>Failures of the sweep builder\<close>

text \<open>
  An iteration that ends in \<^verbatim>\<open>continue\<close> leaves the map and the total as they are, so the
  loop runs as if its target were not in the list; an iteration that returns an error ends
  the loop with an error.
\<close>

lemma sweepLoop_skip:
  assumes "sweepTier w blockHeight targetAddr c = Continue"
  shows "sweepLoop w blockHeight targetAddr ts td tot
           = sweepLoop w blockHeight targetAddr (removeAll c ts) td tot"
proof (induction ts arbitrary: td tot)
  case Nil
  show ?case by simp
next
  case (Cons t rest)
  show ?case
  proof (cases "t = c")
    case True
    with assms Cons show ?thesis by simp
  next
    case False
    show ?thesis
    proof (cases "sweepTier w blockHeight targetAddr t")
      case (Abort e)
      with False show ?thesis by simp
    next
      case Continue
      with False Cons.IH [of td tot] show ?thesis by simp
    next
      case (Produced d' tot')
      have "sweepLoop w blockHeight targetAddr (t # rest) td tot
              = sweepLoop w blockHeight targetAddr rest (td(word_of_int t \<mapsto> d')) tot'"
        using Produced by simp
      also have "\<dots> = sweepLoop w blockHeight targetAddr (removeAll c rest)
                          (td(word_of_int t \<mapsto> d')) tot'"
        by (rule Cons.IH)
      also have "\<dots> = sweepLoop w blockHeight targetAddr (t # removeAll c rest) td tot"
        using Produced by simp
      finally show ?thesis using False by simp
    qed
  qed
qed

lemma sweepLoop_abort:
  assumes "sweepTier w blockHeight targetAddr c = Abort e" and "c \<in> set ts"
  shows "\<exists>err. sweepLoop w blockHeight targetAddr ts td tot = Inl err"
  using assms(2)
proof (induction ts arbitrary: td tot)
  case Nil
  then show ?case by simp
next
  case (Cons t rest)
  show ?case
  proof (cases "t = c")
    case True
    with assms(1) show ?thesis by simp
  next
    case False
    with Cons.prems have "c \<in> set rest" by simp
    from Cons.IH [OF this] show ?thesis
      by (cases "sweepTier w blockHeight targetAddr t") simp_all
  qed
qed

lemma sweepLoop_keys:
  assumes "sweepLoop w blockHeight targetAddr ts td tot = Inr r"
    and "Transactions r k = Some d"
  shows "k \<in> dom td \<or> k \<in> word_of_int ` set ts"
  using assms
proof (induction ts arbitrary: td tot)
  case Nil
  then show ?case by auto
next
  case (Cons t rest)
  show ?case
  proof (cases "sweepTier w blockHeight targetAddr t")
    case (Abort e)
    with Cons.prems(1) show ?thesis by simp
  next
    case Continue
    with Cons.prems(1) have "sweepLoop w blockHeight targetAddr rest td tot = Inr r" by simp
    from Cons.IH [OF this Cons.prems(2)] show ?thesis by auto
  next
    case (Produced d' tot')
    with Cons.prems(1) have
      "sweepLoop w blockHeight targetAddr rest (td(word_of_int t \<mapsto> d')) tot' = Inr r"
      by simp
    from Cons.IH [OF this Cons.prems(2)] show ?thesis by auto
  qed
qed

lemma targets_keys_distinct:
  assumes "c \<in> set targets" and "c' \<in> set (removeAll c targets)"
  shows "(word_of_int c' :: 32 word) \<noteq> word_of_int c"
  using assms by (auto simp: targets_def split: if_splits)

lemma sweepTier_rule_error:
  assumes "determineFeePerKw w c = Inr feePerKw"
    and "CraftSweepAllTx w feePerKw (DefaultDustLimit w) blockHeight targetAddr
           (fst (ListUnspentWitness w c NewRpcUtxoSource)) = Inl e"
  shows "sweepTier w blockHeight targetAddr c
           = (if isRuleError e then Continue else Abort (CraftSweepFailed (builder_error_text e)))"
  using assms by (cases "ListUnspentWitness w c NewRpcUtxoSource") (simp add: sweepTier_def)

lemma builder_failure_skip:
  assumes "c \<in> set targets"
    and "DecodeAddress w address = Inr targetAddr" and "GetInfo w = Inr blockHeight"
    and "determineFeePerKw w c = Inr feePerKw"
    and "CraftSweepAllTx w feePerKw (DefaultDustLimit w) blockHeight targetAddr
           (fst (ListUnspentWitness w c NewRpcUtxoSource)) = Inl e"
    and "isRuleError e"
  shows "SweepAllCoinsTransactions w address = sweepAllCoinsOver w (removeAll c targets) address"
    and "SweepAllCoinsTransactions w address = Inr r \<Longrightarrow> Transactions r (word_of_int c) = None"
proof -
  have t: "sweepTier w blockHeight targetAddr c = Continue"
    using sweepTier_rule_error [OF assms(4,5)] assms(6) by simp
  show eq: "SweepAllCoinsTransactions w address
              = sweepAllCoinsOver w (removeAll c targets) address"
    using sweepLoop_skip [OF t, of targets Map.empty 0] assms(2,3)
    by (simp add: SweepAllCoinsTransactions_def sweepAllCoinsOver_def split: sum.splits)
  show "Transactions r (word_of_int c) = None"
    if "SweepAllCoinsTransactions w address = Inr r"
  proof (cases "Transactions r (word_of_int c)")
    case None
    then show ?thesis .
  next
    case (Some d)
    from that eq have "sweepAllCoinsOver w (removeAll c targets) address = Inr r" by simp
    from sweepAllCoinsOver_Inr [OF this] assms(2,3)
    have "sweepLoop w blockHeight targetAddr (removeAll c targets) Map.empty 0 = Inr r"
      by auto
    from sweepLoop_keys [OF this Some]
    obtain c' where "c' \<in> set (removeAll c targets)"
      "(word_of_int c :: 32 word) = word_of_int c'"
      by auto
    with targets_keys_distinct [OF assms(1)] show ?thesis by metis
  qed
qed

lemma builder_failure_abort:
  assumes "c \<in> set targets"
    and "DecodeAddress w address = Inr targetAddr" and "GetInfo w = Inr blockHeight"
    and "determineFeePerKw w c = Inr feePerKw"
    and "CraftSweepAllTx w feePerKw (DefaultDustLimit w) blockHeight targetAddr
           (fst (ListUnspentWitness w c NewRpcUtxoSource)) = Inl e"
    and "\<not> isRuleError e"
  shows "\<exists>err. SweepAllCoinsTransactions w address = Inl err"
proof -
  have t: "sweepTier w blockHeight targetAddr c
             = Abort (CraftSweepFailed (builder_error_text e))"
    using sweepTier_rule_error [OF assms(4,5)] assms(6) by simp
  from sweepLoop_abort [OF t assms(1), of Map.empty 0] assms(2,3)
  show ?thesis
    by (auto simp: SweepAllCoinsTransactions_def sweepAllCoinsOver_def split: sum.splits)
qed

text \<open>
  Claim C7. Let the builder fail for the confirmation target \<open>c\<close> (the address and the block
  height being available, and the fee rate of \<open>c\<close> estimated). If the error is a rule error,
  the call behaves exactly as the same call over the targets without \<open>c\<close>, and a result it
  returns has no entry for \<open>c\<close>: only this tier is omitted. For any other error the whole call
  returns an error and no result.
\<close>

theorem SweepAllCoinsTransactions_builder_failure:
  assumes "c \<in> set targets"
    and "DecodeAddress w address = Inr targetAddr" and "GetInfo w = Inr blockHeight"
    and "determineFeePerKw w c = Inr feePerKw"
    and "CraftSweepAllTx w feePerKw (DefaultDustLimit w) blockHeight targetAddr
           (fst (ListUnspentWitness w c NewRpcUtxoSource)) = Inl e"
  shows "(isRuleError e \<longrightarrow>
            SweepAllCoinsTransactions w address
              = sweepAllCoinsOver w (removeAll c targets) address
            \<and> (\<forall>r. SweepAllCoinsTransactions w address = Inr r
                  \<longrightarrow> Transactions r (word_of_int c) = None))
         \<and> (\<not> isRuleError e \<longrightarrow> (\<exists>err. SweepAllCoinsTransactions w address = Inl err))"
  using builder_failure_skip [OF assms] builder_failure_abort [OF assms] by blast

theorem SweepAllCoinsTransactions_builder_failure_witness:
  "SweepAllCoinsTransactions example_sweep_world ''bc1qaddr''
     = sweepAllCoinsOver example_sweep_world [6, 25] ''bc1qaddr''
   \<and> Transactions
        \<lparr> Amt = 100000,
          Transactions = [6 \<mapsto> \<lparr> Tx = [], TxHash = ''txid'', Fees = 2500 \<rparr>,
                          25 \<mapsto> \<lparr> Tx = [], TxHash = ''txid'', Fees = 253 \<rparr>] \<rparr> 2 = None
   \<and> isl (SweepAllCoinsTransactions
            (example_sweep_world\<lparr>ListUnspent := \<lambda>c. Inl ''connection refused''\<rparr>) ''bc1qaddr'')"
proof -
  let ?w = "example_sweep_world\<lparr>ListUnspent := \<lambda>c. Inl ''connection refused''\<rparr>"
  have c: "2 \<in> set targets" by (simp add: targets_def)
  have f: "determineFeePerKw example_sweep_world 2 = Inr 99900"
    by (simp add: determineFeePerKw_def example_sweep_world_def)
  have l: "fst (ListUnspentWitness example_sweep_world 2 NewRpcUtxoSource)
     = Inr [\<lparr> Utxo_AddressType = WitnessPubKey, Utxo_Value = 60000, Utxo_Confirmations = 3,
               Utxo_PkScript = [0, 20], OutPoint_Hash = replicate 32 0, OutPoint_Index = 0 \<rparr>,
             \<lparr> Utxo_AddressType = WitnessPubKey, Utxo_Value = 40000, Utxo_Confirmations = 3,
               Utxo_PkScript = [0, 20], OutPoint_Hash = replicate 32 0, OutPoint_Index = 0 \<rparr>]"
    using example_listing [of "EstimateFee example_sweep_world" 2] by simp
  have b: "CraftSweepAllTx example_sweep_world 99900 (DefaultDustLimit example_sweep_world)
             700000 ''bc1qaddr'' (fst (ListUnspentWitness example_sweep_world 2 NewRpcUtxoSource))
           = Inl (RuleError ''output below dust'')"
    by (simp only: l) (simp add: example_sweep_world_def example_builder_def word_sless_alt)
  note 1 = SweepAllCoinsTransactions_builder_failure [OF c example_address(1) example_address(3)
      f b, THEN conjunct1, rule_format, OF isRuleError.simps(1) [THEN iffD2, OF TrueI]]
  have f': "determineFeePerKw ?w 2 = Inr 99900"
    by (simp add: determineFeePerKw_def example_sweep_world_def)
  have b': "CraftSweepAllTx ?w 99900 (DefaultDustLimit ?w) 700000 ''bc1qaddr''
              (fst (ListUnspentWitness ?w 2 NewRpcUtxoSource))
            = Inl (OtherError ''unable to fetch+lock wallet utxos'')"
    by (simp add: ListUnspentWitness_def) (simp add: example_sweep_world_def example_builder_def)
  have a': "DecodeAddress ?w ''bc1qaddr'' = Inr ''bc1qaddr''" "GetInfo ?w = Inr 700000"
    by (simp_all add: example_address)
  from SweepAllCoinsTransactions_builder_failure [OF c a' f' b', THEN conjunct2, rule_format]
  have 2: "isl (SweepAllCoinsTransactions ?w ''bc1qaddr'')" by auto
  from 1 [THEN conjunct2, rule_format, OF example_sweep] 1 [THEN conjunct1] 2
  show ?thesis by (simp add: targets_def)
qed


end
